theory Spec2Isabelle
  imports Complex_Main "HOL-Library.Finite_Map"
begin

section \<open>The user database (auth/user\_db.py)\<close>

text \<open>
  A user entry is the dictionary \<^verbatim>\<open>{"username": ..., "hashed_password": ...}\<close> that
  \<^verbatim>\<open>create_user\<close> stores. The user map is the Python dictionary \<^verbatim>\<open>self.users\<close>,
  keyed by username.
\<close>

record user =
  username :: string
  hashed_password :: string

type_synonym user_map = "string \<rightharpoonup> user"

text \<open>
  \<^verbatim>\<open>pwd_context\<close> is passlib's \<^verbatim>\<open>CryptContext(schemes=["argon2"])\<close>, a library outside
  the repository. It is a parameter of the model: \<open>ctx_hash\<close> takes the salt the
  library draws for this call and the password, \<open>ctx_verify\<close> takes the password and
  a stored hash. Both are taken to return normally.
\<close>

record crypt_context =
  ctx_hash :: "string \<Rightarrow> string \<Rightarrow> string"
  ctx_verify :: "string \<Rightarrow> string \<Rightarrow> bool"

text \<open>
  The contract of the library that the credential round trip rests on: verifying a
  password against a hash made from that same password succeeds, whatever the salt.
\<close>

definition context_sound :: "crypt_context \<Rightarrow> bool" where
  "context_sound ctx = (\<forall>salt p. ctx_verify ctx p (ctx_hash ctx salt p))"

text \<open>
  The file \<^verbatim>\<open>data/users.json\<close>: absent, present but not readable as JSON, or holding
  a dumped user map.
\<close>

datatype users_file = NoFile | Unreadable | Stored user_map

record user_database =
  users :: user_map
  users_json :: users_file

text \<open>\<^verbatim>\<open>_load_users\<close>: an absent file and a file that fails to load both give \<^verbatim>\<open>{}\<close>.\<close>

fun load_users :: "users_file \<Rightarrow> user_map" where
  "load_users NoFile = Map.empty"
| "load_users Unreadable = Map.empty"
| "load_users (Stored m) = m"

text \<open>\<^verbatim>\<open>UserDatabase.__init__\<close>\<close>

definition UserDatabase :: "users_file \<Rightarrow> user_database" where
  "UserDatabase f = \<lparr>users = load_users f, users_json = f\<rparr>"

text \<open>\<^verbatim>\<open>_save_users\<close> dumps the whole map over the file; the write is taken to succeed.\<close>

definition save_users :: "user_database \<Rightarrow> user_database" where
  "save_users db = db\<lparr>users_json := Stored (users db)\<rparr>"

definition get_user :: "user_database \<Rightarrow> string \<Rightarrow> user option" where
  "get_user db name = users db name"

text \<open>
  \<^verbatim>\<open>create_user\<close> returns its boolean together with the database after the call.
  \<^verbatim>\<open>username in self.users\<close> is the test \<open>users db name \<noteq> None\<close>.
\<close>

definition create_user ::
  "crypt_context \<Rightarrow> string \<Rightarrow> user_database \<Rightarrow> string \<Rightarrow> string \<Rightarrow> bool \<times> user_database" where
  "create_user ctx salt db name password =
     (if users db name \<noteq> None then (False, db)
      else
        let hashed = ctx_hash ctx salt password;
            db' = db\<lparr>users := (users db)(name \<mapsto> \<lparr>username = name, hashed_password = hashed\<rparr>)\<rparr>
        in (True, save_users db'))"

text \<open>
  \<^verbatim>\<open>authenticate_user\<close>: \<^verbatim>\<open>if not user\<close> is taken on \<^verbatim>\<open>None\<close>; an entry always has
  its two keys, so it is never an empty (falsy) dictionary.
\<close>

definition authenticate_user :: "crypt_context \<Rightarrow> user_database \<Rightarrow> string \<Rightarrow> string \<Rightarrow> bool" where
  "authenticate_user ctx db name password =
     (case get_user db name of
        None \<Rightarrow> False
      | Some u \<Rightarrow> ctx_verify ctx password (hashed_password u))"

section \<open>Exceptions and log records\<close>

text \<open>
  A Python exception raised inside a handler or during startup: a FastAPI
  \<^verbatim>\<open>HTTPException(status_code, detail)\<close>, or any other \<^verbatim>\<open>Exception\<close> with its message.
  Both are subclasses of \<^verbatim>\<open>Exception\<close>, so \<^verbatim>\<open>except Exception\<close> catches both.
\<close>

datatype exn = Exception string | HTTPException nat string

text \<open>
  The response FastAPI sends when a handler leaves with an \<^verbatim>\<open>HTTPException\<close>: the status
  code and the detail. \<^verbatim>\<open>detail=str(e)\<close> is kept as \<open>Str e\<close>; what the library prints
  for an exception is not fixed by the repository.
\<close>

datatype detail = Detail string | Str exn

datatype failure = Failure nat detail

fun status_code :: "failure \<Rightarrow> nat" where
  "status_code (Failure code d) = code"

text \<open>The pieces of a formatted log message (an f-string), and a logger record.\<close>

datatype fmt = S string | N nat | R real | E exn | Traceback exn

datatype level = INFO | WARNING | ERROR

section \<open>Collaborators of the API that are not part of the three source files\<close>

text \<open>
  Modelled from the spec: the Article and the ArticleStore (database/article\_db.py is
  missing). An article has a stable identifier and content; the store holds the corpus
  and exposes \<^verbatim>\<open>getAllArticles() -> sequence of Article\<close> and
  \<^verbatim>\<open>getArticle(id) -> Article | absent\<close>.
\<close>

record article =
  article_id :: int
  content :: string

record article_database =
  articles :: "article list"

definition get_all_articles :: "article_database \<Rightarrow> article list" where
  "get_all_articles db = articles db"

definition get_article :: "article_database \<Rightarrow> int \<Rightarrow> article option" where
  "get_article db i = find (\<lambda>a. article_id a = i) (articles db)"

text \<open>
  Modelled from the spec: the SessionStore (database/session\_manager.py is missing).
  A session is the ordered, append-only list of interactions
  \<open>(question, article, reward, timestamp)\<close> with the derived stats
  \<open>(count, average reward, last-activity time)\<close>, recomputed on each append.
  \<^verbatim>\<open>createSession\<close> initialises an empty session if absent and is idempotent;
  \<^verbatim>\<open>addInteraction\<close> appends, creating the session on first use; \<^verbatim>\<open>getStats\<close> returns
  the stats, or absent if the user has no session. The sessions dictionary is a
  finite map keyed by user id. Rewards are Python floats, taken here as reals; the
  timestamp is the clock reading handed to the call.
\<close>

record interaction =
  question :: string
  recommended :: article
  reward :: real
  timestamp :: nat

record session_stats =
  total_interactions :: nat
  average_reward :: real
  last_activity :: "nat option"

record session =
  interactions :: "interaction list"
  stats :: session_stats

record session_manager =
  sessions :: "(string, session) fmap"

definition stats_of :: "interaction list \<Rightarrow> session_stats" where
  "stats_of entries =
     \<lparr>total_interactions = length entries,
      average_reward = (if entries = [] then 0 else sum_list (map reward entries) / real (length entries)),
      last_activity = (if entries = [] then None else Some (timestamp (last entries)))\<rparr>"

definition empty_session :: session where
  "empty_session = \<lparr>interactions = [], stats = stats_of []\<rparr>"

definition create_session :: "session_manager \<Rightarrow> string \<Rightarrow> session_manager" where
  "create_session sm user_id =
     (if fmlookup (sessions sm) user_id = None
      then sm\<lparr>sessions := fmupd user_id empty_session (sessions sm)\<rparr>
      else sm)"

definition add_interaction ::
  "session_manager \<Rightarrow> nat \<Rightarrow> string \<Rightarrow> string \<Rightarrow> article \<Rightarrow> real \<Rightarrow> session_manager" where
  "add_interaction sm now user_id q a r =
     (let old = (case fmlookup (sessions sm) user_id of None \<Rightarrow> [] | Some s \<Rightarrow> interactions s);
          entries = old @ [\<lparr>question = q, recommended = a, reward = r, timestamp = now\<rparr>]
      in sm\<lparr>sessions := fmupd user_id \<lparr>interactions = entries, stats = stats_of entries\<rparr> (sessions sm)\<rparr>)"

definition get_session_stats :: "session_manager \<Rightarrow> string \<Rightarrow> session_stats option" where
  "get_session_stats sm user_id = map_option stats (fmlookup (sessions sm) user_id)"

text \<open>
  The environment, the agent and the response generator (rl\_environment/env.py,
  agents/dqn\_agent.py and models/response\_generator.py are missing) are parameters:
  each method the API calls is a function that returns a value or raises.
  \<^verbatim>\<open>env.reset(question)\<close> stores the question in the environment and
  \<^verbatim>\<open>env._calculate_reward(article)\<close> scores against it; in the model the question of
  the preceding reset is handed to \<open>calculate_reward\<close>.
\<close>

type_synonym state = "real list"

record environment =
  reset :: "string \<Rightarrow> exn + state"
  calculate_reward :: "string \<Rightarrow> article \<Rightarrow> exn + real"
  get_action_space_size :: nat

record agent =
  select_action :: "state \<Rightarrow> bool \<Rightarrow> exn + int"

text \<open>
  \<^verbatim>\<open>generate_answer\<close> returns the dictionary with the keys \<^verbatim>\<open>"answer"\<close>,
  \<^verbatim>\<open>"recommended_article"\<close> (itself holding \<^verbatim>\<open>"confidence"\<close>) and
  \<^verbatim>\<open>"suggested_actions"\<close> that \<^verbatim>\<open>ask_question\<close> reads.
\<close>

record article_view =
  shown :: article
  confidence :: real

record response_data =
  answer :: string
  recommended_article :: article_view
  suggested_actions :: "string list"

record response_generator =
  generate_answer :: "string \<Rightarrow> article \<Rightarrow> exn + response_data"

section \<open>The API (api/app.py)\<close>

text \<open>\<^verbatim>\<open>RecommendationResponse\<close> and the body of the \<^verbatim>\<open>/health\<close> answer.\<close>

record recommendation_response =
  resp_answer :: string
  resp_recommended_article :: article_view
  resp_suggested_actions :: "string list"
  resp_session_id :: string
  resp_confidence :: real

record health =
  status :: string
  articles_count :: nat
  sessions_count :: nat

text \<open>
  What a handler did to its collaborators, in the order it did it: the calls on the
  session manager, environment, agent, article store and response generator, and the
  logger records. The list is kept in the state so that the order of effects can be
  stated; it is not a field of the Python class.
\<close>

datatype call =
    CreateSession string
  | Reset string
  | SelectAction state bool
  | GetArticle int
  | CalculateReward article
  | AddInteraction string string article real
  | GenerateAnswer string article
  | Logger level "fmt list"

text \<open>The fields of \<^verbatim>\<open>RecommendationAPI\<close>, and the calls made so far.\<close>

record RecommendationAPI =
  article_db :: article_database
  session_manager :: session_manager
  env :: environment
  agent :: agent
  response_generator :: response_generator
  user_db :: user_database
  calls :: "call list"

definition did :: "call \<Rightarrow> RecommendationAPI \<Rightarrow> RecommendationAPI" where
  "did c self = self\<lparr>calls := calls self @ [c]\<rparr>"

text \<open>
  The body of the \<^verbatim>\<open>try\<close> block of \<^verbatim>\<open>ask_question\<close> (lines 83 to 117): the value it
  returns or the exception that leaves it, and the state at that point. \<open>now\<close> is the
  clock reading of the request. An article is never an empty dictionary, so
  \<^verbatim>\<open>if not recommended_article\<close> is taken on \<^verbatim>\<open>None\<close> only.
\<close>

definition ask_question_try ::
  "RecommendationAPI \<Rightarrow> nat \<Rightarrow> string \<Rightarrow> string \<Rightarrow> (exn + recommendation_response) \<times> RecommendationAPI" where
  "ask_question_try self now q user_id =
     (let s1 = (if fmlookup (sessions (session_manager self)) user_id = None
                then did (CreateSession user_id)
                       (self\<lparr>session_manager := create_session (session_manager self) user_id\<rparr>)
                else self);
          s2 = did (Reset q) s1
      in (case reset (env s2) q of
            Inl e \<Rightarrow> (Inl e, s2)
          | Inr st \<Rightarrow>
             (let s3 = did (SelectAction st False) s2
              in (case select_action (agent s3) st False of
                    Inl e \<Rightarrow> (Inl e, s3)
                  | Inr aid \<Rightarrow>
                     (let s4 = did (GetArticle aid) s3
                      in (case get_article (article_db s4) aid of
                            None \<Rightarrow> (Inl (HTTPException 404 ''Article not found''), s4)
                          | Some art \<Rightarrow>
                             (let s5 = did (CalculateReward art) s4
                              in (case calculate_reward (env s5) q art of
                                    Inl e \<Rightarrow> (Inl e, s5)
                                  | Inr r \<Rightarrow>
                                     (let s6 = did (AddInteraction user_id q art r)
                                                 (s5\<lparr>session_manager :=
                                                       add_interaction (session_manager s5) now user_id q art r\<rparr>);
                                          s7 = did (GenerateAnswer q art) s6
                                      in (case generate_answer (response_generator s7) q art of
                                            Inl e \<Rightarrow> (Inl e, s7)
                                          | Inr d \<Rightarrow>
                                              (Inr \<lparr>resp_answer = answer d,
                                                    resp_recommended_article = recommended_article d,
                                                    resp_suggested_actions = suggested_actions d,
                                                    resp_session_id = user_id,
                                                    resp_confidence = confidence (recommended_article d)\<rparr>,
                                               s7)))))))))))"

text \<open>
  \<^verbatim>\<open>ask_question\<close>: \<^verbatim>\<open>except Exception as e\<close> (lines 119 to 121) catches whatever left
  the block, logs it and raises \<^verbatim>\<open>HTTPException(status_code=500, detail=str(e))\<close>.
\<close>

definition ask_question ::
  "RecommendationAPI \<Rightarrow> nat \<Rightarrow> string \<Rightarrow> string \<Rightarrow> (failure + recommendation_response) \<times> RecommendationAPI" where
  "ask_question self now q user_id =
     (case ask_question_try self now q user_id of
        (Inl e, s) \<Rightarrow>
          (Inl (Failure 500 (Str e)), did (Logger ERROR [S ''Error processing question: '', E e]) s)
      | (Inr r, s) \<Rightarrow> (Inr r, s))"

text \<open>
  \<^verbatim>\<open>get_session_stats\<close>, the handler of \<^verbatim>\<open>/session/{user_id}\<close>, here
  \<open>session_stats_handler\<close> since the session manager's method has the same name.
  \<open>current_user\<close> is
  \<^verbatim>\<open>current_user.user_id\<close>, the identity the token dependency hands over. The stats
  dictionary has three keys, so \<^verbatim>\<open>if not stats\<close> is taken on \<^verbatim>\<open>None\<close> only.
\<close>

definition session_stats_handler ::
  "RecommendationAPI \<Rightarrow> string \<Rightarrow> string \<Rightarrow> (failure + session_stats) \<times> RecommendationAPI" where
  "session_stats_handler self current_user user_id =
     (if current_user \<noteq> user_id then (Inl (Failure 403 (Detail ''Access forbidden'')), self)
      else (case get_session_stats (session_manager self) user_id of
              None \<Rightarrow> (Inl (Failure 404 (Detail ''Session not found'')), self)
            | Some st \<Rightarrow> (Inr st, self)))"

text \<open>\<^verbatim>\<open>health_check\<close>; \<^verbatim>\<open>len\<close> of the sessions dictionary is the number of its keys.\<close>

definition health_check :: "RecommendationAPI \<Rightarrow> health \<times> RecommendationAPI" where
  "health_check self =
     (\<lparr>status = ''healthy'',
       articles_count = length (get_all_articles (article_db self)),
       sessions_count = fcard (fmdom (sessions (session_manager self)))\<rparr>,
      self)"

section \<open>Startup (main.py)\<close>

text \<open>
  The configuration object (config/settings.py is missing): the fields that
  \<^verbatim>\<open>main.py\<close> reads or writes.
\<close>

record config =
  articles_path :: string
  excel_path :: string
  sessions_path :: string
  model_state_dim :: nat
  model_action_dim :: nat
  api_host :: string
  api_port :: nat

record state_encoder =
  get_state_dimension :: nat

text \<open>The dictionary \<^verbatim>\<open>initialize_system\<close> returns.\<close>

record components =
  c_config :: config
  c_article_db :: article_database
  c_user_db :: user_database
  c_session_manager :: session_manager
  c_state_encoder :: state_encoder
  c_env :: environment
  c_agent :: agent
  c_response_generator :: response_generator

text \<open>
  What startup does that can be seen from outside, in order: the logger records, the
  call \<^verbatim>\<open>pretrain_with_supervised(episodes=...)\<close>, and the call of \<^verbatim>\<open>uvicorn.run\<close> on
  the application with its host and port, which is where requests begin to be served.
\<close>

datatype event =
    Log level "fmt list"
  | PretrainSupervised nat
  | UvicornRun RecommendationAPI string nat

text \<open>
  The world \<^verbatim>\<open>main\<close> starts in. Every constructor and import of a module that is not
  among the three source files is a parameter that returns its object or raises;
  \<open>users_file_at_start\<close> is the content of \<^verbatim>\<open>data/users.json\<close>, and the two salts are
  what the password library would draw if the demo user had to be created.
  \<open>pretrain_with_supervised\<close> trains the agent in place: it gives the agent as it is
  afterwards even when it raises. \<open>evaluate_pretraining\<close> gives
  \<^verbatim>\<open>eval_results['accuracy']\<close>.
\<close>

record startup =
  new_Config :: "exn + config"
  new_ArticleDatabase :: "config \<Rightarrow> exn + article_database"
  users_file_at_start :: users_file
  pwd_context :: crypt_context
  admin_salt :: string
  new_SessionManager :: "config \<Rightarrow> exn + session_manager"
  import_components :: "exn option"
  new_StateEncoder :: "article_database \<Rightarrow> exn + state_encoder"
  new_RecommendationEnv :: "article_database \<Rightarrow> state_encoder \<Rightarrow> config \<Rightarrow> exn + environment"
  new_DQNAgent :: "nat \<Rightarrow> nat \<Rightarrow> config \<Rightarrow> exn + agent"
  import_Pretrainer :: "exn option"
  new_Pretrainer :: "environment \<Rightarrow> agent \<Rightarrow> article_database \<Rightarrow> exn option"
  pretrain_with_supervised ::
    "environment \<Rightarrow> agent \<Rightarrow> article_database \<Rightarrow> nat \<Rightarrow> exn option \<times> agent"
  evaluate_pretraining :: "environment \<Rightarrow> agent \<Rightarrow> article_database \<Rightarrow> exn + real"
  new_ResponseGenerator :: "article_database \<Rightarrow> exn + response_generator"
  api_admin_salt :: string
  app_setup :: "exn option"
  uvicorn_run :: "RecommendationAPI \<Rightarrow> exn option"

text \<open>
  The body of the inner \<^verbatim>\<open>try\<close> of \<^verbatim>\<open>initialize_system\<close> (lines 74 to 79): what it
  ends with (the exception, or the accuracy), the agent afterwards, and its events.
\<close>

definition pretraining_try ::
  "startup \<Rightarrow> environment \<Rightarrow> agent \<Rightarrow> article_database \<Rightarrow> (exn + real) \<times> agent \<times> event list" where
  "pretraining_try b e a db =
     (case import_Pretrainer b of
        Some x \<Rightarrow> (Inl x, a, [])
      | None \<Rightarrow>
         (case new_Pretrainer b e a db of
            Some x \<Rightarrow> (Inl x, a, [Log INFO [S ''Starting pretraining...'']])
          | None \<Rightarrow>
             (case pretrain_with_supervised b e a db 500 of
                (Some x, a') \<Rightarrow>
                  (Inl x, a', [Log INFO [S ''Starting pretraining...''], PretrainSupervised 500])
              | (None, a') \<Rightarrow>
                 (case evaluate_pretraining b e a' db of
                    Inl x \<Rightarrow>
                      (Inl x, a', [Log INFO [S ''Starting pretraining...''], PretrainSupervised 500])
                  | Inr acc \<Rightarrow>
                      (Inr acc, a',
                       [Log INFO [S ''Starting pretraining...''], PretrainSupervised 500,
                        Log INFO [S ''Pretraining completed! Accuracy: '', R acc]])))))"

text \<open>Lines 73 to 81: the \<^verbatim>\<open>try\<close> with its \<^verbatim>\<open>except Exception\<close>, which logs a warning.\<close>

definition pretraining :: "startup \<Rightarrow> environment \<Rightarrow> agent \<Rightarrow> article_database \<Rightarrow> agent \<times> event list" where
  "pretraining b e a db =
     (case pretraining_try b e a db of
        (Inl x, a', evs) \<Rightarrow> (a', evs @ [Log WARNING [S ''Pretraining skipped: '', E x]])
      | (Inr acc, a', evs) \<Rightarrow> (a', evs))"

text \<open>
  The outer \<^verbatim>\<open>try\<close> of \<^verbatim>\<open>initialize_system\<close> (lines 25 to 97) is given in three
  parts, from the last to the first; each part gives the exception that leaves the
  block or the value returned (\<^verbatim>\<open>None\<close> or the dictionary) and the events from its
  first line on. The local variables \<^verbatim>\<open>article_db\<close>, \<^verbatim>\<open>user_db\<close>,
  \<^verbatim>\<open>session_manager\<close>, \<^verbatim>\<open>env\<close> and \<^verbatim>\<open>response_generator\<close> are \<open>adb\<close>, \<open>udb\<close>,
  \<open>smgr\<close>, \<open>envr\<close> and \<open>generator\<close> here.

  Lines 72 to 97: pretraining, the response generator, the dictionary.
\<close>

definition initialize_trained ::
  "startup \<Rightarrow> config \<Rightarrow> article_database \<Rightarrow> user_database \<Rightarrow> session_manager \<Rightarrow> state_encoder \<Rightarrow>
   environment \<Rightarrow> agent \<Rightarrow> (exn + components option) \<times> event list" where
  "initialize_trained b config adb udb smgr encoder envr agent0 =
     (let trained = pretraining b envr agent0 adb
      in (case new_ResponseGenerator b adb of
            Inl x \<Rightarrow> (Inl x, snd trained)
          | Inr generator \<Rightarrow>
              (Inr (Some \<lparr>c_config = config,
                          c_article_db = adb,
                          c_user_db = udb,
                          c_session_manager = smgr,
                          c_state_encoder = encoder,
                          c_env = envr,
                          c_agent = fst trained,
                          c_response_generator = generator\<rparr>),
               snd trained @ [Log INFO [S ''Response generator initialized'']])))"

text \<open>
  Lines 43 to 70: the session manager, the imports, the state encoder, the
  environment, the configuration updated with the two dimensions, the agent.
\<close>

definition initialize_components ::
  "startup \<Rightarrow> config \<Rightarrow> article_database \<Rightarrow> user_database \<Rightarrow> (exn + components option) \<times> event list" where
  "initialize_components b config adb udb =
     (case new_SessionManager b config of
        Inl x \<Rightarrow> (Inl x, [])
      | Inr smgr \<Rightarrow>
         (let ev4 = [Log INFO [S ''Loaded '', N (fcard (fmdom (sessions smgr))), S '' existing sessions'']]
          in (case import_components b of
                Some x \<Rightarrow> (Inl x, ev4)
              | None \<Rightarrow>
                 (case new_StateEncoder b adb of
                    Inl x \<Rightarrow> (Inl x, ev4)
                  | Inr encoder \<Rightarrow>
                     (let state_dim = get_state_dimension encoder;
                          ev5 = ev4 @ [Log INFO [S ''State encoder initialized with dimension: '', N state_dim]]
                      in (case new_RecommendationEnv b adb encoder config of
                            Inl x \<Rightarrow> (Inl x, ev5)
                          | Inr envr \<Rightarrow>
                             (let action_dim = get_action_space_size envr;
                                  ev6 = ev5 @ [Log INFO [S ''RL Environment initialized with '',
                                                         N action_dim, S '' actions'']];
                                  config' = config\<lparr>model_action_dim := action_dim,
                                                  model_state_dim := state_dim\<rparr>
                              in (case new_DQNAgent b state_dim action_dim config' of
                                    Inl x \<Rightarrow> (Inl x, ev6)
                                  | Inr agent0 \<Rightarrow>
                                     (let rest = initialize_trained b config' adb udb smgr encoder envr agent0
                                      in (fst rest,
                                          ev6 @ [Log INFO [S ''DQN Agent initialized'']] @ snd rest))))))))))"

text \<open>
  Lines 25 to 41, and then the rest: the configuration, the article store, the user
  database with the demo user, the check for an empty corpus. The third component
  is the content of the users file afterwards.
\<close>

definition initialize_try :: "startup \<Rightarrow> (exn + components option) \<times> event list \<times> users_file" where
  "initialize_try b =
     (case new_Config b of
        Inl x \<Rightarrow> (Inl x, [], users_file_at_start b)
      | Inr config \<Rightarrow>
         (let ev1 = [Log INFO [S ''Configuration loaded'']]
          in (case new_ArticleDatabase b config of
                Inl x \<Rightarrow> (Inl x, ev1, users_file_at_start b)
              | Inr adb \<Rightarrow>
                 (let all_articles = get_all_articles adb;
                      ev2 = ev1 @ [Log INFO [S ''Loaded '', N (length all_articles), S '' articles'']];
                      db0 = UserDatabase (users_file_at_start b);
                      udb = (if get_user db0 ''admin'' = None
                             then snd (create_user (pwd_context b) (admin_salt b) db0 ''admin'' ''admin'')
                             else db0);
                      ev3 = ev2 @ [Log INFO [S ''User database initialized'']];
                      f = users_json udb
                  in if all_articles = []
                     then (Inr None,
                           ev3 @ [Log ERROR [S ''No articles available. System cannot start.'']], f)
                     else (let rest = initialize_components b config adb udb
                           in (fst rest, ev3 @ snd rest, f))))))"

text \<open>
  \<^verbatim>\<open>initialize_system\<close>: the first log record, the \<^verbatim>\<open>try\<close>, and the
  \<^verbatim>\<open>except Exception\<close> of lines 100 to 104, which logs the error and the traceback and
  returns \<^verbatim>\<open>None\<close>.
\<close>

record initialized =
  components :: "components option"
  events :: "event list"
  users_file_after :: users_file

definition initialize_system :: "startup \<Rightarrow> initialized" where
  "initialize_system b =
     (case initialize_try b of
        (Inl x, evs, f) \<Rightarrow>
          \<lparr>components = None,
           events = [Log INFO [S ''Initializing RL Recommendation System...'']] @ evs @
                    [Log ERROR [S ''Failed to initialize system: '', E x], Log ERROR [Traceback x]],
           users_file_after = f\<rparr>
      | (Inr c, evs, f) \<Rightarrow>
          \<lparr>components = c,
           events = [Log INFO [S ''Initializing RL Recommendation System...'']] @ evs,
           users_file_after = f\<rparr>)"

text \<open>
  \<^verbatim>\<open>RecommendationAPI.__init__\<close>: the fields, its own \<^verbatim>\<open>UserDatabase()\<close> read from the
  file with the demo user added if missing, then the FastAPI application with its
  middleware, routes and static files, which is \<open>app_setup\<close>.
\<close>

definition new_RecommendationAPI ::
  "startup \<Rightarrow> components \<Rightarrow> users_file \<Rightarrow> (exn + RecommendationAPI) \<times> users_file" where
  "new_RecommendationAPI b c f =
     (let db0 = UserDatabase f;
          db = (if get_user db0 ''admin'' = None
                then snd (create_user (pwd_context b) (api_admin_salt b) db0 ''admin'' ''admin'')
                else db0)
      in (case app_setup b of
            Some x \<Rightarrow> (Inl x, users_json db)
          | None \<Rightarrow>
              (Inr \<lparr>article_db = c_article_db c,
                    session_manager = c_session_manager c,
                    env = c_env c,
                    agent = c_agent c,
                    response_generator = c_response_generator c,
                    user_db = db,
                    calls = []\<rparr>,
               users_json db)))"

text \<open>\<^verbatim>\<open>main\<close>, as the list of its events.\<close>

definition main :: "startup \<Rightarrow> event list" where
  "main b =
     (let r = initialize_system b
      in (case components r of
            None \<Rightarrow> events r @ [Log ERROR [S ''System initialization failed. Exiting.'']]
          | Some c \<Rightarrow>
             (case fst (new_RecommendationAPI b c (users_file_after r)) of
                Inl x \<Rightarrow>
                  events r @ [Log ERROR [S ''Failed to start server: '', E x], Log ERROR [Traceback x]]
              | Inr api \<Rightarrow>
                  events r @
                  [Log INFO [S ''Starting FastAPI server...''],
                   Log INFO [S ''API will be available at: http://'', S (api_host (c_config c)), S '':'',
                             N (api_port (c_config c))],
                   Log INFO [S ''API documentation: http://'', S (api_host (c_config c)), S '':'',
                             N (api_port (c_config c)), S ''/docs''],
                   Log INFO [S ''Chat UI: http://'', S (api_host (c_config c)), S '':'',
                             N (api_port (c_config c)), S ''/chat''],
                   UvicornRun api (api_host (c_config c)) (api_port (c_config c))] @
                  (case uvicorn_run b api of
                     None \<Rightarrow> []
                   | Some x \<Rightarrow>
                       [Log ERROR [S ''Failed to start server: '', E x], Log ERROR [Traceback x]]))))"

text \<open>
  Recognisers for events: the call of the supervised pretraining, the log record that
  ends the pretraining stage (completed, or skipped), and the start of serving.
\<close>

fun is_pretrain_call :: "event \<Rightarrow> bool" where
  "is_pretrain_call (PretrainSupervised n) = True"
| "is_pretrain_call e = False"

fun pretraining_over :: "event \<Rightarrow> bool" where
  "pretraining_over (Log l (S t # rest)) =
     (t = ''Pretraining completed! Accuracy: '' \<or> t = ''Pretraining skipped: '')"
| "pretraining_over e = False"

fun is_serving :: "event \<Rightarrow> bool" where
  "is_serving (UvicornRun api h p) = True"
| "is_serving e = False"

text \<open>
  The events of a run that belong to the pretraining stage, in their order: the calls
  of the supervised pretraining and the records that end the stage.
\<close>

definition pretraining_marks :: "event list \<Rightarrow> event list" where
  "pretraining_marks evs = filter (\<lambda>e. is_pretrain_call e \<or> pretraining_over e) evs"

text \<open>The application handed to \<^verbatim>\<open>uvicorn.run\<close>, if the event is that call.\<close>

fun served_api :: "event \<Rightarrow> RecommendationAPI list" where
  "served_api (UvicornRun api h p) = [api]"
| "served_api e = []"

text \<open>Concrete values used to run the definitions.\<close>

definition toy_context :: crypt_context where
  "toy_context = \<lparr>ctx_hash = (\<lambda>salt p. salt @ p), ctx_verify = (\<lambda>p h. drop (length h - length p) h = p)\<rparr>"

definition admin_only :: user_database where
  "admin_only =
     \<lparr>users = [''admin'' \<mapsto> \<lparr>username = ''admin'', hashed_password = ''s0admin''\<rparr>],
      users_json = Stored [''admin'' \<mapsto> \<lparr>username = ''admin'', hashed_password = ''s0admin''\<rparr>]\<rparr>"

definition demo_articles :: article_database where
  "demo_articles =
     \<lparr>articles = [\<lparr>article_id = 1, content = ''network''\<rparr>, \<lparr>article_id = 2, content = ''storage''\<rparr>]\<rparr>"

definition demo_env :: environment where
  "demo_env = \<lparr>reset = (\<lambda>q. Inr [1, 0]),
               calculate_reward = (\<lambda>q a. Inr (if article_id a = 2 then 1 else 0)),
               get_action_space_size = 2\<rparr>"

text \<open>An agent that answers with an article identifier, and one that answers with index 0.\<close>

definition demo_agent :: agent where
  "demo_agent = \<lparr>select_action = (\<lambda>st training. Inr 2)\<rparr>"

definition index_agent :: agent where
  "index_agent = \<lparr>select_action = (\<lambda>st training. Inr 0)\<rparr>"

definition demo_generator :: response_generator where
  "demo_generator =
     \<lparr>generate_answer = (\<lambda>q a. Inr \<lparr>answer = content a,
                                      recommended_article = \<lparr>shown = a, confidence = 1 / 2\<rparr>,
                                      suggested_actions = []\<rparr>)\<rparr>"

definition demo_api :: RecommendationAPI where
  "demo_api = \<lparr>article_db = demo_articles, session_manager = \<lparr>sessions = fmempty\<rparr>,
               env = demo_env, agent = demo_agent, response_generator = demo_generator,
               user_db = admin_only, calls = []\<rparr>"

definition storage_article :: article where
  "storage_article = \<lparr>article_id = 2, content = ''storage''\<rparr>"

definition one_session :: session_manager where
  "one_session = add_interaction \<lparr>sessions = fmempty\<rparr> 7 ''dima'' ''disk cache'' storage_article 1"

text \<open>
  A startup in which every step succeeds, one whose corpus is empty, and one in which
  the supervised pretraining raises for want of labelled pairs.
\<close>

definition demo_config :: config where
  "demo_config =
     \<lparr>articles_path = ''data/articles.json'', excel_path = ''data/articles.xlsx'',
      sessions_path = ''data/sessions.json'', model_state_dim = 0, model_action_dim = 0,
      api_host = ''0.0.0.0'', api_port = 8000\<rparr>"

definition demo_startup :: startup where
  "demo_startup =
     \<lparr>new_Config = Inr demo_config,
      new_ArticleDatabase = (\<lambda>c. Inr demo_articles),
      users_file_at_start = NoFile,
      pwd_context = toy_context,
      admin_salt = ''s0'',
      new_SessionManager = (\<lambda>c. Inr \<lparr>sessions = fmempty\<rparr>),
      import_components = None,
      new_StateEncoder = (\<lambda>db. Inr \<lparr>get_state_dimension = 2\<rparr>),
      new_RecommendationEnv = (\<lambda>db enc c. Inr demo_env),
      new_DQNAgent = (\<lambda>sd ad c. Inr index_agent),
      import_Pretrainer = None,
      new_Pretrainer = (\<lambda>e a db. None),
      pretrain_with_supervised = (\<lambda>e a db n. (None, demo_agent)),
      evaluate_pretraining = (\<lambda>e a db. Inr 1),
      new_ResponseGenerator = (\<lambda>db. Inr demo_generator),
      api_admin_salt = ''s1'',
      app_setup = None,
      uvicorn_run = (\<lambda>api. None)\<rparr>"

definition empty_corpus_startup :: startup where
  "empty_corpus_startup = demo_startup\<lparr>new_ArticleDatabase := (\<lambda>c. Inr \<lparr>articles = []\<rparr>)\<rparr>"

definition no_pairs_startup :: startup where
  "no_pairs_startup =
     demo_startup\<lparr>pretrain_with_supervised := (\<lambda>e a db n. (Some (Exception ''No labeled pairs''), a))\<rparr>"

text \<open>A startup in which the pretrainer module cannot be imported.\<close>

definition no_pretrainer_startup :: startup where
  "no_pretrainer_startup =
     demo_startup\<lparr>import_Pretrainer := Some (Exception ''No module named training'')\<rparr>"

section \<open>Properties of the user database\<close>

lemma toy_context_sound: "context_sound toy_context"
  by (simp add: context_sound_def toy_context_def)



text \<open>
  C10. Credential round trip. With a password library that verifies what it hashed:
  for a username absent from the database, \<^verbatim>\<open>create_user\<close> succeeds and afterwards
  \<^verbatim>\<open>authenticate_user\<close> accepts the same username and password; and
  \<^verbatim>\<open>authenticate_user\<close> is false for every username absent from the database it is
  asked about, whatever the password.
\<close>

theorem credential_round_trip:
  "(context_sound ctx \<and> users db name = None \<longrightarrow>
      fst (create_user ctx salt db name password) = True \<and>
      authenticate_user ctx (snd (create_user ctx salt db name password)) name password = True) \<and>
   (users db' name' = None \<longrightarrow> authenticate_user ctx db' name' password' = False)"
  by (simp add: create_user_def save_users_def Let_def authenticate_user_def get_user_def
      context_sound_def)

theorem credential_round_trip_witness:
  "context_sound toy_context \<and> users admin_only ''dima'' = None \<and>
   fst (create_user toy_context ''s1'' admin_only ''dima'' ''pw'') = True \<and>
   authenticate_user toy_context
     (snd (create_user toy_context ''s1'' admin_only ''dima'' ''pw'')) ''dima'' ''pw'' = True \<and>
   users admin_only ''nobody'' = None \<and>
   authenticate_user toy_context admin_only ''nobody'' ''pw'' = False"
proof -
  have absent: "users admin_only ''dima'' = None" "users admin_only ''nobody'' = None"
    by (simp_all add: admin_only_def)
  from credential_round_trip [of toy_context admin_only "''dima''" "''s1''" "''pw''"
      admin_only "''nobody''" "''pw''"] toy_context_sound absent
  show ?thesis by blast
qed

section \<open>Properties of the API\<close>

lemmas demo_defs =
  demo_api_def demo_articles_def demo_env_def demo_agent_def demo_generator_def index_agent_def
  storage_article_def

lemma ask_question_try_Inr:
  "ask_question_try self now q user_id = (Inr resp, s) \<Longrightarrow>
     \<exists>st aid art r d.
        reset (env self) q = Inr st \<and>
        select_action (agent self) st False = Inr aid \<and>
        get_article (article_db self) aid = Some art \<and>
        calculate_reward (env self) q art = Inr r \<and>
        generate_answer (response_generator self) q art = Inr d \<and>
        calls s = calls self @
          (if fmlookup (sessions (session_manager self)) user_id = None then [CreateSession user_id] else []) @
          [Reset q, SelectAction st False, GetArticle aid, CalculateReward art,
           AddInteraction user_id q art r, GenerateAnswer q art] \<and>
        session_manager s =
          add_interaction (create_session (session_manager self) user_id) now user_id q art r \<and>
        resp = \<lparr>resp_answer = answer d,
                resp_recommended_article = recommended_article d,
                resp_suggested_actions = suggested_actions d,
                resp_session_id = user_id,
                resp_confidence = confidence (recommended_article d)\<rparr>"
  by (auto simp: ask_question_try_def did_def Let_def create_session_def
      split: sum.splits option.splits if_splits)

lemma ask_question_try_success:
  assumes "reset (env self) q = Inr st"
    and "select_action (agent self) st False = Inr aid"
    and "get_article (article_db self) aid = Some art"
    and "calculate_reward (env self) q art = Inr r"
    and "generate_answer (response_generator self) q art = Inr d"
  shows "fst (ask_question_try self now q user_id) =
           Inr \<lparr>resp_answer = answer d,
                resp_recommended_article = recommended_article d,
                resp_suggested_actions = suggested_actions d,
                resp_session_id = user_id,
                resp_confidence = confidence (recommended_article d)\<rparr>"
  using assms by (simp add: ask_question_try_def did_def Let_def)

lemma ask_question_Inr_iff:
  "fst (ask_question self now q user_id) = Inr resp \<longleftrightarrow>
   ask_question_try self now q user_id = (Inr resp, snd (ask_question self now q user_id))"
  by (cases "ask_question_try self now q user_id") (auto simp: ask_question_def split: sum.splits)

lemma add_interaction_appends:
  "fmlookup (sessions (add_interaction (create_session sm user_id) now user_id q a r)) user_id =
     Some \<lparr>interactions =
             (case fmlookup (sessions sm) user_id of None \<Rightarrow> [] | Some s \<Rightarrow> interactions s) @
             [\<lparr>question = q, recommended = a, reward = r, timestamp = now\<rparr>],
           stats = stats_of
             ((case fmlookup (sessions sm) user_id of None \<Rightarrow> [] | Some s \<Rightarrow> interactions s) @
              [\<lparr>question = q, recommended = a, reward = r, timestamp = now\<rparr>])\<rparr>"
  by (simp add: add_interaction_def create_session_def empty_session_def Let_def split: option.splits)

text \<open>
  C1. Whenever \<^verbatim>\<open>ask_question\<close> returns its payload, it has made, after creating the
  session if the user had none, exactly these calls in this order: \<^verbatim>\<open>env.reset\<close> on the
  question, \<^verbatim>\<open>agent.select_action\<close> on the state that came back with
  \<^verbatim>\<open>training=False\<close>, the article lookup of the action, \<^verbatim>\<open>env._calculate_reward\<close> on
  the article, \<^verbatim>\<open>add_interaction\<close> with the user, question, article and reward, and
  the answer formatting. The user's session is the old one with that interaction
  appended, and the payload carries the generator's recommended article and
  confidence and the user id as session id. Conversely the payload is returned
  whenever each of the components returns and the article is found.
\<close>

theorem ask_question_order:
  "(fst (ask_question self now q user_id) = Inr resp \<longrightarrow>
     (\<exists>st aid art r d.
        reset (env self) q = Inr st \<and>
        select_action (agent self) st False = Inr aid \<and>
        get_article (article_db self) aid = Some art \<and>
        calculate_reward (env self) q art = Inr r \<and>
        generate_answer (response_generator self) q art = Inr d \<and>
        calls (snd (ask_question self now q user_id)) = calls self @
          (if fmlookup (sessions (session_manager self)) user_id = None then [CreateSession user_id] else []) @
          [Reset q, SelectAction st False, GetArticle aid, CalculateReward art,
           AddInteraction user_id q art r, GenerateAnswer q art] \<and>
        session_manager (snd (ask_question self now q user_id)) =
          add_interaction (create_session (session_manager self) user_id) now user_id q art r \<and>
        map_option interactions
            (fmlookup (sessions (session_manager (snd (ask_question self now q user_id)))) user_id) =
          Some ((case fmlookup (sessions (session_manager self)) user_id of
                   None \<Rightarrow> [] | Some s \<Rightarrow> interactions s) @
                [\<lparr>question = q, recommended = art, reward = r, timestamp = now\<rparr>]) \<and>
        resp = \<lparr>resp_answer = answer d,
                resp_recommended_article = recommended_article d,
                resp_suggested_actions = suggested_actions d,
                resp_session_id = user_id,
                resp_confidence = confidence (recommended_article d)\<rparr>)) \<and>
   (\<forall>st aid art r d.
      reset (env self) q = Inr st \<and>
      select_action (agent self) st False = Inr aid \<and>
      get_article (article_db self) aid = Some art \<and>
      calculate_reward (env self) q art = Inr r \<and>
      generate_answer (response_generator self) q art = Inr d \<longrightarrow>
      (\<exists>resp'. fst (ask_question self now q user_id) = Inr resp'))"
proof (intro conjI impI allI)
  assume "fst (ask_question self now q user_id) = Inr resp"
  then have "ask_question_try self now q user_id = (Inr resp, snd (ask_question self now q user_id))"
    by (simp add: ask_question_Inr_iff)
  from ask_question_try_Inr [OF this]
  obtain st aid art r d where steps:
    "reset (env self) q = Inr st"
    "select_action (agent self) st False = Inr aid"
    "get_article (article_db self) aid = Some art"
    "calculate_reward (env self) q art = Inr r"
    "generate_answer (response_generator self) q art = Inr d"
    "calls (snd (ask_question self now q user_id)) = calls self @
          (if fmlookup (sessions (session_manager self)) user_id = None then [CreateSession user_id] else []) @
          [Reset q, SelectAction st False, GetArticle aid, CalculateReward art,
           AddInteraction user_id q art r, GenerateAnswer q art]"
    "session_manager (snd (ask_question self now q user_id)) =
          add_interaction (create_session (session_manager self) user_id) now user_id q art r"
    "resp = \<lparr>resp_answer = answer d,
                resp_recommended_article = recommended_article d,
                resp_suggested_actions = suggested_actions d,
                resp_session_id = user_id,
                resp_confidence = confidence (recommended_article d)\<rparr>"
    by blast
  from steps(7) have "map_option interactions
            (fmlookup (sessions (session_manager (snd (ask_question self now q user_id)))) user_id) =
          Some ((case fmlookup (sessions (session_manager self)) user_id of
                   None \<Rightarrow> [] | Some s \<Rightarrow> interactions s) @
                [\<lparr>question = q, recommended = art, reward = r, timestamp = now\<rparr>])"
    by (simp add: add_interaction_appends)
  with steps show "\<exists>st aid art r d.
        reset (env self) q = Inr st \<and>
        select_action (agent self) st False = Inr aid \<and>
        get_article (article_db self) aid = Some art \<and>
        calculate_reward (env self) q art = Inr r \<and>
        generate_answer (response_generator self) q art = Inr d \<and>
        calls (snd (ask_question self now q user_id)) = calls self @
          (if fmlookup (sessions (session_manager self)) user_id = None then [CreateSession user_id] else []) @
          [Reset q, SelectAction st False, GetArticle aid, CalculateReward art,
           AddInteraction user_id q art r, GenerateAnswer q art] \<and>
        session_manager (snd (ask_question self now q user_id)) =
          add_interaction (create_session (session_manager self) user_id) now user_id q art r \<and>
        map_option interactions
            (fmlookup (sessions (session_manager (snd (ask_question self now q user_id)))) user_id) =
          Some ((case fmlookup (sessions (session_manager self)) user_id of
                   None \<Rightarrow> [] | Some s \<Rightarrow> interactions s) @
                [\<lparr>question = q, recommended = art, reward = r, timestamp = now\<rparr>]) \<and>
        resp = \<lparr>resp_answer = answer d,
                resp_recommended_article = recommended_article d,
                resp_suggested_actions = suggested_actions d,
                resp_session_id = user_id,
                resp_confidence = confidence (recommended_article d)\<rparr>"
    by (intro exI [of _ st] exI [of _ aid] exI [of _ art] exI [of _ r] exI [of _ d]) simp
next
  fix st aid art r d
  assume "reset (env self) q = Inr st \<and>
      select_action (agent self) st False = Inr aid \<and>
      get_article (article_db self) aid = Some art \<and>
      calculate_reward (env self) q art = Inr r \<and>
      generate_answer (response_generator self) q art = Inr d"
  then have "fst (ask_question_try self now q user_id) =
           Inr \<lparr>resp_answer = answer d,
                resp_recommended_article = recommended_article d,
                resp_suggested_actions = suggested_actions d,
                resp_session_id = user_id,
                resp_confidence = confidence (recommended_article d)\<rparr>"
    by (simp add: ask_question_try_success)
  then show "\<exists>resp'. fst (ask_question self now q user_id) = Inr resp'"
    by (cases "ask_question_try self now q user_id") (simp add: ask_question_def)
qed

theorem ask_question_order_witness:
  "fst (ask_question demo_api 7 ''disk cache'' ''dima'') =
     Inr \<lparr>resp_answer = ''storage'',
          resp_recommended_article = \<lparr>shown = storage_article, confidence = 1 / 2\<rparr>,
          resp_suggested_actions = [],
          resp_session_id = ''dima'',
          resp_confidence = 1 / 2\<rparr> \<and>
   calls (snd (ask_question demo_api 7 ''disk cache'' ''dima'')) =
     [CreateSession ''dima'', Reset ''disk cache'', SelectAction [1, 0] False, GetArticle 2,
      CalculateReward storage_article, AddInteraction ''dima'' ''disk cache'' storage_article 1,
      GenerateAnswer ''disk cache'' storage_article] \<and>
   map_option interactions
       (fmlookup (sessions (session_manager (snd (ask_question demo_api 7 ''disk cache'' ''dima'')))) ''dima'') =
     Some [\<lparr>question = ''disk cache'', recommended = storage_article, reward = 1, timestamp = 7\<rparr>]"
proof -
  have parts:
    "reset (env demo_api) ''disk cache'' = Inr [1, 0]"
    "select_action (agent demo_api) [1, 0] False = Inr 2"
    "get_article (article_db demo_api) 2 = Some storage_article"
    "calculate_reward (env demo_api) ''disk cache'' storage_article = Inr 1"
    "generate_answer (response_generator demo_api) ''disk cache'' storage_article =
       Inr \<lparr>answer = ''storage'',
            recommended_article = \<lparr>shown = storage_article, confidence = 1 / 2\<rparr>,
            suggested_actions = []\<rparr>"
    "fmlookup (sessions (session_manager demo_api)) ''dima'' = None"
    "calls demo_api = []"
    by (simp_all add: demo_defs get_article_def)
  from parts ask_question_order [of demo_api 7 "''disk cache''" "''dima''"]
  obtain resp' where returned: "fst (ask_question demo_api 7 ''disk cache'' ''dima'') = Inr resp'"
    by blast
  from returned ask_question_order [of demo_api 7 "''disk cache''" "''dima''" resp']
  obtain st aid art r d where steps:
    "reset (env demo_api) ''disk cache'' = Inr st"
    "select_action (agent demo_api) st False = Inr aid"
    "get_article (article_db demo_api) aid = Some art"
    "calculate_reward (env demo_api) ''disk cache'' art = Inr r"
    "generate_answer (response_generator demo_api) ''disk cache'' art = Inr d"
    "calls (snd (ask_question demo_api 7 ''disk cache'' ''dima'')) = calls demo_api @
          (if fmlookup (sessions (session_manager demo_api)) ''dima'' = None then [CreateSession ''dima''] else []) @
          [Reset ''disk cache'', SelectAction st False, GetArticle aid, CalculateReward art,
           AddInteraction ''dima'' ''disk cache'' art r, GenerateAnswer ''disk cache'' art]"
    "map_option interactions
        (fmlookup (sessions (session_manager (snd (ask_question demo_api 7 ''disk cache'' ''dima'')))) ''dima'') =
      Some ((case fmlookup (sessions (session_manager demo_api)) ''dima'' of
               None \<Rightarrow> [] | Some s \<Rightarrow> interactions s) @
            [\<lparr>question = ''disk cache'', recommended = art, reward = r, timestamp = 7\<rparr>])"
    "resp' = \<lparr>resp_answer = answer d,
                resp_recommended_article = recommended_article d,
                resp_suggested_actions = suggested_actions d,
                resp_session_id = ''dima'',
                resp_confidence = confidence (recommended_article d)\<rparr>"
    by blast
  from steps(1) parts(1) have st: "st = [1, 0]" by simp
  from steps(2) parts(2) st have aid: "aid = 2" by simp
  from steps(3) parts(3) aid have art: "art = storage_article" by simp
  from steps(4) parts(4) art have r: "r = 1" by simp
  from steps(5) parts(5) art
  have d: "d = \<lparr>answer = ''storage'',
            recommended_article = \<lparr>shown = storage_article, confidence = 1 / 2\<rparr>,
            suggested_actions = []\<rparr>" by simp
  from returned steps(8) d
  have "fst (ask_question demo_api 7 ''disk cache'' ''dima'') =
     Inr \<lparr>resp_answer = ''storage'',
          resp_recommended_article = \<lparr>shown = storage_article, confidence = 1 / 2\<rparr>,
          resp_suggested_actions = [],
          resp_session_id = ''dima'',
          resp_confidence = 1 / 2\<rparr>"
    by simp
  moreover from steps(6) parts(6,7) st aid art r
  have "calls (snd (ask_question demo_api 7 ''disk cache'' ''dima'')) =
     [CreateSession ''dima'', Reset ''disk cache'', SelectAction [1, 0] False, GetArticle 2,
      CalculateReward storage_article, AddInteraction ''dima'' ''disk cache'' storage_article 1,
      GenerateAnswer ''disk cache'' storage_article]"
    by simp
  moreover from steps(7) parts(6) art r
  have "map_option interactions
       (fmlookup (sessions (session_manager (snd (ask_question demo_api 7 ''disk cache'' ''dima'')))) ''dima'') =
     Some [\<lparr>question = ''disk cache'', recommended = storage_article, reward = 1, timestamp = 7\<rparr>]"
    by simp
  ultimately show ?thesis by simp
qed

text \<open>
  C4. When the lookup of the selected action finds no article, \<^verbatim>\<open>ask_question\<close> raises
  its 404 inside the \<^verbatim>\<open>try\<close> block, the \<^verbatim>\<open>except Exception\<close> clause catches it, and what
  the caller receives is status 500 with the text of the 404 as detail.
\<close>

lemma ask_question_absent_article:
  assumes "reset (env self) q = Inr st"
    and "select_action (agent self) st False = Inr aid"
    and "get_article (article_db self) aid = None"
  shows "fst (ask_question self now q user_id) =
           Inl (Failure 500 (Str (HTTPException 404 ''Article not found'')))"
  using assms by (simp add: ask_question_def ask_question_try_def did_def Let_def)

theorem ask_question_absent_article_is_500:
  "get_article (article_db (demo_api\<lparr>agent := index_agent\<rparr>)) 0 = None \<and>
   fst (ask_question (demo_api\<lparr>agent := index_agent\<rparr>) 7 ''disk cache'' ''dima'') =
     Inl (Failure 500 (Str (HTTPException 404 ''Article not found''))) \<and>
   status_code (Failure 500 (Str (HTTPException 404 ''Article not found''))) \<noteq> 404"
  by (simp add: ask_question_def ask_question_try_def did_def Let_def demo_defs get_article_def)

text \<open>
  C5, as stated, fails: a request for the stats of a user with no session, made by
  another authenticated user, is answered 403 and not 404.
\<close>

theorem session_stats_not_404_for_other_user:
  "fmlookup (sessions (session_manager demo_api)) ''dima'' = None \<and>
   fst (session_stats_handler demo_api ''admin'' ''dima'') =
     Inl (Failure 403 (Detail ''Access forbidden''))"
  by (simp add: session_stats_handler_def demo_defs)

text \<open>
  C5, amended. For a request in which the authenticated user is the requested user:
  if that user has no session the answer is 404 \<open>Session not found\<close>; if the user has a
  session the answer is the stats stored with it. Neither changes the state.
\<close>

theorem session_stats_for_owner:
  "current_user = user_id \<longrightarrow>
     (fmlookup (sessions (session_manager self)) user_id = None \<longrightarrow>
        session_stats_handler self current_user user_id =
          (Inl (Failure 404 (Detail ''Session not found'')), self)) \<and>
     (\<forall>s. fmlookup (sessions (session_manager self)) user_id = Some s \<longrightarrow>
        session_stats_handler self current_user user_id = (Inr (stats s), self))"
  by (simp add: session_stats_handler_def get_session_stats_def)

theorem session_stats_for_owner_witness:
  "fmlookup (sessions (session_manager demo_api)) ''dima'' = None \<and>
   session_stats_handler demo_api ''dima'' ''dima'' =
     (Inl (Failure 404 (Detail ''Session not found'')), demo_api) \<and>
   fmlookup (sessions (session_manager (demo_api\<lparr>session_manager := one_session\<rparr>))) ''dima'' =
     Some \<lparr>interactions =
             [\<lparr>question = ''disk cache'', recommended = storage_article, reward = 1, timestamp = 7\<rparr>],
           stats = \<lparr>total_interactions = 1, average_reward = 1, last_activity = Some 7\<rparr>\<rparr> \<and>
   session_stats_handler (demo_api\<lparr>session_manager := one_session\<rparr>) ''dima'' ''dima'' =
     (Inr \<lparr>total_interactions = 1, average_reward = 1, last_activity = Some 7\<rparr>,
      demo_api\<lparr>session_manager := one_session\<rparr>)"
proof -
  have absent: "fmlookup (sessions (session_manager demo_api)) ''dima'' = None"
    by (simp add: demo_defs)
  have present: "fmlookup (sessions (session_manager (demo_api\<lparr>session_manager := one_session\<rparr>))) ''dima'' =
     Some \<lparr>interactions =
             [\<lparr>question = ''disk cache'', recommended = storage_article, reward = 1, timestamp = 7\<rparr>],
           stats = \<lparr>total_interactions = 1, average_reward = 1, last_activity = Some 7\<rparr>\<rparr>"
    by (simp add: one_session_def add_interaction_def stats_of_def Let_def)
  from absent session_stats_for_owner [of "''dima''" "''dima''" demo_api]
  have "session_stats_handler demo_api ''dima'' ''dima'' =
     (Inl (Failure 404 (Detail ''Session not found'')), demo_api)"
    by blast
  moreover
  from present session_stats_for_owner [of "''dima''" "''dima''" "demo_api\<lparr>session_manager := one_session\<rparr>"]
  have "session_stats_handler (demo_api\<lparr>session_manager := one_session\<rparr>) ''dima'' ''dima'' =
     (Inr \<lparr>total_interactions = 1, average_reward = 1, last_activity = Some 7\<rparr>,
      demo_api\<lparr>session_manager := one_session\<rparr>)"
    by fastforce
  ultimately show ?thesis using absent present by simp
qed

text \<open>
  C7. \<^verbatim>\<open>health_check\<close> reports the number of articles of the article store and the
  number of sessions of the session store, and leaves the state, both stores
  included, as it was.
\<close>

theorem health_check_counts:
  "articles_count (fst (health_check self)) = length (articles (article_db self)) \<and>
   sessions_count (fst (health_check self)) = fcard (fmdom (sessions (session_manager self))) \<and>
   status (fst (health_check self)) = ''healthy'' \<and>
   article_db (snd (health_check self)) = article_db self \<and>
   session_manager (snd (health_check self)) = session_manager self \<and>
   snd (health_check self) = self"
  by (simp add: health_check_def get_all_articles_def)

text \<open>
  C8. When the authenticated user is not the requested user, the answer of the
  session-stats endpoint is 403 \<open>Access forbidden\<close>, and it is the same answer in any
  two states of the API, whatever sessions they hold.
\<close>

theorem session_stats_forbidden_for_others:
  "current_user \<noteq> user_id \<longrightarrow>
     fst (session_stats_handler self current_user user_id) =
       Inl (Failure 403 (Detail ''Access forbidden'')) \<and>
     fst (session_stats_handler self current_user user_id) =
       fst (session_stats_handler self' current_user user_id) \<and>
     snd (session_stats_handler self current_user user_id) = self"
  by (simp add: session_stats_handler_def)

theorem session_stats_forbidden_for_others_witness:
  "fst (session_stats_handler demo_api ''admin'' ''dima'') =
     Inl (Failure 403 (Detail ''Access forbidden'')) \<and>
   fst (session_stats_handler demo_api ''admin'' ''dima'') =
     fst (session_stats_handler (demo_api\<lparr>session_manager := one_session\<rparr>) ''admin'' ''dima'') \<and>
   fmlookup (sessions (session_manager demo_api)) ''dima'' = None \<and>
   map_option stats (fmlookup (sessions (session_manager (demo_api\<lparr>session_manager := one_session\<rparr>))) ''dima'') =
     Some \<lparr>total_interactions = 1, average_reward = 1, last_activity = Some 7\<rparr>"
proof -
  have different: "''admin'' \<noteq> ''dima''" by simp
  have "fmlookup (sessions (session_manager demo_api)) ''dima'' = None"
    by (simp add: demo_defs)
  moreover
  have "map_option stats (fmlookup (sessions (session_manager (demo_api\<lparr>session_manager := one_session\<rparr>))) ''dima'') =
     Some \<lparr>total_interactions = 1, average_reward = 1, last_activity = Some 7\<rparr>"
    by (simp add: one_session_def add_interaction_def stats_of_def Let_def)
  moreover
  from different
    session_stats_forbidden_for_others [of "''admin''" "''dima''" demo_api
      "demo_api\<lparr>session_manager := one_session\<rparr>"]
  have "fst (session_stats_handler demo_api ''admin'' ''dima'') =
       Inl (Failure 403 (Detail ''Access forbidden'')) \<and>
     fst (session_stats_handler demo_api ''admin'' ''dima'') =
       fst (session_stats_handler (demo_api\<lparr>session_manager := one_session\<rparr>) ''admin'' ''dima'')"
    by blast
  ultimately show ?thesis by blast
qed

section \<open>Properties of startup\<close>

text \<open>What the events of each part of \<^verbatim>\<open>initialize_system\<close> contain.\<close>

lemma pretraining_no_serving: "filter is_serving (snd (pretraining b e a db)) = []"
  by (simp add: pretraining_def pretraining_try_def split: option.splits prod.splits sum.splits)

lemma pretraining_over_once: "length (filter pretraining_over (snd (pretraining b e a db))) = Suc 0"
  by (simp add: pretraining_def pretraining_try_def split: option.splits prod.splits sum.splits)

lemma pretraining_call_at_most_once:
  "length (filter is_pretrain_call (snd (pretraining b e a db))) \<le> Suc 0"
  by (simp add: pretraining_def pretraining_try_def split: option.splits prod.splits sum.splits)

lemma trained_no_serving:
  "filter is_serving (snd (initialize_trained b c adb udb sm enc en ag)) = []"
  by (simp add: initialize_trained_def Let_def pretraining_no_serving split: sum.splits)

lemma trained_call_at_most_once:
  "length (filter is_pretrain_call (snd (initialize_trained b c adb udb sm enc en ag))) \<le> Suc 0"
  by (simp add: initialize_trained_def Let_def pretraining_call_at_most_once split: sum.splits)

lemma trained_over_once:
  "length (filter pretraining_over (snd (initialize_trained b c adb udb sm enc en ag))) = Suc 0"
  by (simp add: initialize_trained_def Let_def pretraining_over_once split: sum.splits)

lemma components_no_serving: "filter is_serving (snd (initialize_components b c adb udb)) = []"
  by (simp add: initialize_components_def Let_def trained_no_serving split: sum.splits option.splits)

lemma components_call_at_most_once:
  "length (filter is_pretrain_call (snd (initialize_components b c adb udb))) \<le> Suc 0"
  by (simp add: initialize_components_def Let_def trained_call_at_most_once
      split: sum.splits option.splits)

lemma components_over_once:
  "fst (initialize_components b c adb udb) = Inr r \<Longrightarrow>
   length (filter pretraining_over (snd (initialize_components b c adb udb))) = Suc 0"
  by (auto simp: initialize_components_def Let_def trained_over_once
      split: sum.splits option.splits)

lemma try_no_serving: "filter is_serving (fst (snd (initialize_try b))) = []"
  by (simp add: initialize_try_def Let_def components_no_serving split: sum.splits)

lemma try_call_at_most_once: "length (filter is_pretrain_call (fst (snd (initialize_try b)))) \<le> Suc 0"
  by (simp add: initialize_try_def Let_def components_call_at_most_once split: sum.splits)

lemma try_over_once:
  "fst (initialize_try b) = Inr (Some c) \<Longrightarrow>
   length (filter pretraining_over (fst (snd (initialize_try b)))) = Suc 0"
  by (auto simp: initialize_try_def Let_def split: sum.splits if_splits
      intro: components_over_once)

lemma events_initialize_system:
  "events (initialize_system b) =
     Log INFO [S ''Initializing RL Recommendation System...''] # fst (snd (initialize_try b)) @
     (case fst (initialize_try b) of
        Inl x \<Rightarrow> [Log ERROR [S ''Failed to initialize system: '', E x], Log ERROR [Traceback x]]
      | Inr c \<Rightarrow> [])"
  by (cases "initialize_try b") (auto simp: initialize_system_def split: sum.splits)

lemma components_initialize_system:
  "components (initialize_system b) = (case fst (initialize_try b) of Inl x \<Rightarrow> None | Inr c \<Rightarrow> c)"
  by (cases "initialize_try b") (auto simp: initialize_system_def split: sum.splits)


lemma init_no_serving: "filter is_serving (events (initialize_system b)) = []"
  by (simp add: events_initialize_system try_no_serving split: sum.splits)

lemma init_call_at_most_once:
  "length (filter is_pretrain_call (events (initialize_system b))) \<le> Suc 0"
  using try_call_at_most_once [of b]
  by (simp add: events_initialize_system split: sum.splits)

lemma init_over_once:
  "components (initialize_system b) = Some c \<Longrightarrow>
   length (filter pretraining_over (events (initialize_system b))) = Suc 0"
  by (auto simp: events_initialize_system components_initialize_system try_over_once
      split: sum.splits)

lemma main_serving_shape:
  "\<exists>e\<in>set (main b). is_serving e \<Longrightarrow>
   \<exists>c api rest.
     components (initialize_system b) = Some c \<and>
     fst (new_RecommendationAPI b c (users_file_after (initialize_system b))) = Inr api \<and>
     filter is_pretrain_call rest = [] \<and> filter pretraining_over rest = [] \<and>
     takeWhile (\<lambda>e. \<not> is_serving e) (main b) =
       events (initialize_system b) @
       [Log INFO [S ''Starting FastAPI server...''],
        Log INFO [S ''API will be available at: http://'', S (api_host (c_config c)), S '':'',
                  N (api_port (c_config c))],
        Log INFO [S ''API documentation: http://'', S (api_host (c_config c)), S '':'',
                  N (api_port (c_config c)), S ''/docs''],
        Log INFO [S ''Chat UI: http://'', S (api_host (c_config c)), S '':'',
                  N (api_port (c_config c)), S ''/chat'']] \<and>
     dropWhile (\<lambda>e. \<not> is_serving e) (main b) =
       UvicornRun api (api_host (c_config c)) (api_port (c_config c)) # rest"
proof -
  assume serving: "\<exists>e\<in>set (main b). is_serving e"
  have quiet: "\<forall>e\<in>set (events (initialize_system b)). \<not> is_serving e"
    using init_no_serving [of b] by (simp add: filter_empty_conv)
  show ?thesis
  proof (cases "components (initialize_system b)")
    case None
    with serving quiet show ?thesis by (auto simp: main_def Let_def)
  next
    case (Some c)
    show ?thesis
    proof (cases "fst (new_RecommendationAPI b c (users_file_after (initialize_system b)))")
      case (Inl x)
      with Some serving quiet show ?thesis by (auto simp: main_def Let_def)
    next
      case (Inr api)
      with Some quiet show ?thesis
        by (simp add: main_def Let_def takeWhile_append2 dropWhile_append2 split: option.splits)
    qed
  qed
qed

lemma main_pretrain_calls:
  "filter is_pretrain_call (main b) = filter is_pretrain_call (events (initialize_system b))"
  by (simp add: main_def Let_def split: option.splits sum.splits)

lemma main_serves_iff:
  "(\<exists>e\<in>set (main b). is_serving e) \<longleftrightarrow>
   (components (initialize_system b) \<noteq> None \<and> app_setup b = None)"
proof -
  have quiet: "\<forall>e\<in>set (events (initialize_system b)). \<not> is_serving e"
    using init_no_serving [of b] by (simp add: filter_empty_conv)
  then show ?thesis
    by (auto simp: main_def Let_def new_RecommendationAPI_def split: option.splits sum.splits)
qed

lemma trained_agent_only:
  "map_sum id (map_option (\<lambda>c. c\<lparr>c_agent := a\<rparr>))
     (fst (initialize_trained
        (b\<lparr>import_Pretrainer := ip, new_Pretrainer := np, pretrain_with_supervised := ps,
           evaluate_pretraining := ev\<rparr>) cfg adb udb sm enc en ag)) =
   map_sum id (map_option (\<lambda>c. c\<lparr>c_agent := a\<rparr>))
     (fst (initialize_trained b cfg adb udb sm enc en ag))"
  by (simp add: initialize_trained_def Let_def split: sum.splits)

lemma components_agent_only:
  "map_sum id (map_option (\<lambda>c. c\<lparr>c_agent := a\<rparr>))
     (fst (initialize_components
        (b\<lparr>import_Pretrainer := ip, new_Pretrainer := np, pretrain_with_supervised := ps,
           evaluate_pretraining := ev\<rparr>) cfg adb udb)) =
   map_sum id (map_option (\<lambda>c. c\<lparr>c_agent := a\<rparr>))
     (fst (initialize_components b cfg adb udb))"
  by (simp add: initialize_components_def Let_def trained_agent_only split: sum.splits option.splits)

lemma try_agent_only:
  "map_sum id (map_option (\<lambda>c. c\<lparr>c_agent := a\<rparr>))
     (fst (initialize_try
        (b\<lparr>import_Pretrainer := ip, new_Pretrainer := np, pretrain_with_supervised := ps,
           evaluate_pretraining := ev\<rparr>))) =
   map_sum id (map_option (\<lambda>c. c\<lparr>c_agent := a\<rparr>)) (fst (initialize_try b))"
  by (auto simp: initialize_try_def Let_def components_agent_only split: sum.splits)

lemma system_agent_only:
  "map_option (\<lambda>c. c\<lparr>c_agent := a\<rparr>)
     (components (initialize_system
        (b\<lparr>import_Pretrainer := ip, new_Pretrainer := np, pretrain_with_supervised := ps,
           evaluate_pretraining := ev\<rparr>))) =
   map_option (\<lambda>c. c\<lparr>c_agent := a\<rparr>) (components (initialize_system b))"
proof -
  let ?b = "b\<lparr>import_Pretrainer := ip, new_Pretrainer := np, pretrain_with_supervised := ps,
           evaluate_pretraining := ev\<rparr>"
  have "map_sum id (map_option (\<lambda>c. c\<lparr>c_agent := a\<rparr>)) (fst (initialize_try ?b)) =
        map_sum id (map_option (\<lambda>c. c\<lparr>c_agent := a\<rparr>)) (fst (initialize_try b))"
    by (rule try_agent_only)
  then show ?thesis
    by (cases "fst (initialize_try ?b)"; cases "fst (initialize_try b)")
      (simp_all add: components_initialize_system)
qed

lemmas startup_defs =
  demo_startup_def empty_corpus_startup_def no_pairs_startup_def demo_config_def

lemma demo_startup_initialised: "components (initialize_system demo_startup) \<noteq> None"
  by (simp add: components_initialize_system initialize_try_def initialize_components_def
      initialize_trained_def Let_def startup_defs demo_articles_def get_all_articles_def)

lemma no_pairs_try:
  "pretraining_try no_pairs_startup demo_env index_agent demo_articles =
     (Inl (Exception ''No labeled pairs''), index_agent,
      [Log INFO [S ''Starting pretraining...''], PretrainSupervised 500])"
  by (simp add: pretraining_try_def startup_defs)

text \<open>
  C2. If the configuration loads, the article store opens and the corpus it gives is
  empty, then \<^verbatim>\<open>initialize_system\<close> returns \<^verbatim>\<open>None\<close> after logging that no articles are
  available, and \<^verbatim>\<open>main\<close> logs that initialization failed and ends there:
  \<^verbatim>\<open>uvicorn.run\<close> is never called.
\<close>

theorem empty_corpus_refuses_to_start:
  "new_Config b = Inr cfg \<and> new_ArticleDatabase b cfg = Inr db \<and> get_all_articles db = [] \<longrightarrow>
     components (initialize_system b) = None \<and>
     Log ERROR [S ''No articles available. System cannot start.''] \<in> set (events (initialize_system b)) \<and>
     main b = events (initialize_system b) @ [Log ERROR [S ''System initialization failed. Exiting.'']] \<and>
     filter is_serving (main b) = []"
proof (intro impI)
  assume h: "new_Config b = Inr cfg \<and> new_ArticleDatabase b cfg = Inr db \<and> get_all_articles db = []"
  then have body: "fst (initialize_try b) = Inr None"
    "Log ERROR [S ''No articles available. System cannot start.''] \<in> set (fst (snd (initialize_try b)))"
    by (simp_all add: initialize_try_def Let_def)
  from body(1) have none: "components (initialize_system b) = None"
    by (simp add: components_initialize_system)
  from body(2) have logged:
    "Log ERROR [S ''No articles available. System cannot start.''] \<in> set (events (initialize_system b))"
    by (simp add: events_initialize_system)
  from none have exits:
    "main b = events (initialize_system b) @ [Log ERROR [S ''System initialization failed. Exiting.'']]"
    by (simp add: main_def Let_def)
  from exits have "filter is_serving (main b) = []"
    by (simp add: init_no_serving)
  with none logged exits show "components (initialize_system b) = None \<and>
     Log ERROR [S ''No articles available. System cannot start.''] \<in> set (events (initialize_system b)) \<and>
     main b = events (initialize_system b) @ [Log ERROR [S ''System initialization failed. Exiting.'']] \<and>
     filter is_serving (main b) = []"
    by blast
qed


theorem empty_corpus_refuses_to_start_witness:
  "new_Config empty_corpus_startup = Inr demo_config \<and>
   new_ArticleDatabase empty_corpus_startup demo_config = Inr \<lparr>articles = []\<rparr> \<and>
   get_all_articles \<lparr>articles = []\<rparr> = [] \<and>
   components (initialize_system empty_corpus_startup) = None \<and>
   filter is_serving (main empty_corpus_startup) = []"
proof -
  have given:
    "new_Config empty_corpus_startup = Inr demo_config \<and>
     new_ArticleDatabase empty_corpus_startup demo_config = Inr \<lparr>articles = []\<rparr> \<and>
     get_all_articles \<lparr>articles = []\<rparr> = []"
    by (simp add: startup_defs get_all_articles_def)
  with empty_corpus_refuses_to_start [of empty_corpus_startup demo_config "\<lparr>articles = []\<rparr>"]
  show ?thesis by blast
qed

text \<open>The pretraining events of each part of startup, in terms of the steps of the stage.\<close>

lemma marks_append: "pretraining_marks (xs @ ys) = pretraining_marks xs @ pretraining_marks ys"
  by (simp add: pretraining_marks_def)

lemma marks_Nil: "pretraining_marks [] = []"
  by (simp add: pretraining_marks_def)

lemma marks_Cons:
  "pretraining_marks (e # evs) =
     (if is_pretrain_call e \<or> pretraining_over e then e # pretraining_marks evs
      else pretraining_marks evs)"
  by (simp add: pretraining_marks_def)

lemma pretraining_marks_import_fails:
  "import_Pretrainer b = Some x \<Longrightarrow>
   pretraining_marks (snd (pretraining b e a db)) = [Log WARNING [S ''Pretraining skipped: '', E x]] \<and>
   fst (pretraining b e a db) = a"
  by (simp add: pretraining_def pretraining_try_def pretraining_marks_def)

lemma pretraining_marks_constructor_fails:
  "import_Pretrainer b = None \<Longrightarrow> new_Pretrainer b e a db = Some x \<Longrightarrow>
   pretraining_marks (snd (pretraining b e a db)) = [Log WARNING [S ''Pretraining skipped: '', E x]] \<and>
   fst (pretraining b e a db) = a"
  by (simp add: pretraining_def pretraining_try_def pretraining_marks_def)

lemma pretraining_marks_called:
  "import_Pretrainer b = None \<Longrightarrow> new_Pretrainer b e a db = None \<Longrightarrow>
   pretraining_marks (snd (pretraining b e a db)) =
     [PretrainSupervised 500,
      (case pretrain_with_supervised b e a db 500 of
         (Some x, a') \<Rightarrow> Log WARNING [S ''Pretraining skipped: '', E x]
       | (None, a') \<Rightarrow>
          (case evaluate_pretraining b e a' db of
             Inl x \<Rightarrow> Log WARNING [S ''Pretraining skipped: '', E x]
           | Inr acc \<Rightarrow> Log INFO [S ''Pretraining completed! Accuracy: '', R acc]))] \<and>
   fst (pretraining b e a db) = snd (pretrain_with_supervised b e a db 500)"
  by (simp add: pretraining_def pretraining_try_def pretraining_marks_def
      split: prod.splits option.splits sum.splits)

lemma trained_marks:
  "pretraining_marks (snd (initialize_trained b cfg adb udb sm enc en ag)) =
     pretraining_marks (snd (pretraining b en ag adb))"
  by (simp add: initialize_trained_def Let_def pretraining_marks_def split: sum.splits)

lemma trained_components:
  "fst (initialize_trained b cfg adb udb sm enc en ag) = Inr (Some c) \<Longrightarrow>
   c_config c = cfg \<and> c_article_db c = adb \<and> c_state_encoder c = enc \<and> c_env c = en \<and>
   c_agent c = fst (pretraining b en ag adb)"
  by (auto simp: initialize_trained_def Let_def split: sum.splits)

lemma components_marks:
  "fst (initialize_components b cfg adb udb) = Inr (Some c) \<Longrightarrow>
   \<exists>ag0. new_DQNAgent b (get_state_dimension (c_state_encoder c)) (get_action_space_size (c_env c))
            (c_config c) = Inr ag0 \<and>
         pretraining_marks (snd (initialize_components b cfg adb udb)) =
           pretraining_marks (snd (pretraining b (c_env c) ag0 (c_article_db c))) \<and>
         c_agent c = fst (pretraining b (c_env c) ag0 (c_article_db c))"
  by (auto simp: initialize_components_def Let_def trained_marks marks_append marks_Cons marks_Nil
      split: sum.splits option.splits dest!: trained_components)

lemma try_marks:
  "fst (initialize_try b) = Inr (Some c) \<Longrightarrow>
   \<exists>ag0. new_DQNAgent b (get_state_dimension (c_state_encoder c)) (get_action_space_size (c_env c))
            (c_config c) = Inr ag0 \<and>
         pretraining_marks (fst (snd (initialize_try b))) =
           pretraining_marks (snd (pretraining b (c_env c) ag0 (c_article_db c))) \<and>
         c_agent c = fst (pretraining b (c_env c) ag0 (c_article_db c))"
  by (auto simp: initialize_try_def Let_def marks_append marks_Cons marks_Nil
      split: sum.splits if_splits dest!: components_marks)

lemma system_marks:
  "components (initialize_system b) = Some c \<Longrightarrow>
   \<exists>ag0. new_DQNAgent b (get_state_dimension (c_state_encoder c)) (get_action_space_size (c_env c))
            (c_config c) = Inr ag0 \<and>
         pretraining_marks (events (initialize_system b)) =
           pretraining_marks (snd (pretraining b (c_env c) ag0 (c_article_db c))) \<and>
         c_agent c = fst (pretraining b (c_env c) ag0 (c_article_db c))"
  by (auto simp: components_initialize_system events_initialize_system marks_append marks_Cons
      marks_Nil split: sum.splits dest!: try_marks)

lemma calls_of_marks: "filter is_pretrain_call (pretraining_marks evs) = filter is_pretrain_call evs"
  by (induction evs) (simp_all add: marks_Nil marks_Cons)

lemma end_record_no_call:
  "\<not> is_pretrain_call
      (case r of
         (Some x, a') \<Rightarrow> Log WARNING [S ''Pretraining skipped: '', E x]
       | (None, a') \<Rightarrow>
          (case ev a' of
             Inl x \<Rightarrow> Log WARNING [S ''Pretraining skipped: '', E x]
           | Inr acc \<Rightarrow> Log INFO [S ''Pretraining completed! Accuracy: '', R acc]))"
  by (simp split: prod.splits option.splits sum.splits)

lemma no_pretrainer_startup_initialised:
  "components (initialize_system no_pretrainer_startup) \<noteq> None"
  by (simp add: components_initialize_system initialize_try_def initialize_components_def
      initialize_trained_def Let_def no_pretrainer_startup_def startup_defs demo_articles_def
      get_all_articles_def)

text \<open>
  C6. In every run of \<^verbatim>\<open>main\<close>, \<^verbatim>\<open>pretrain_with_supervised\<close> is called at most once.
  In every run in which the server is started, the pretraining stage has ended
  exactly once before \<^verbatim>\<open>uvicorn.run\<close> is called, and from that call on there is no
  pretraining call and no end of a pretraining stage. What the stage did before the
  server started is fixed by its steps, on the environment, the agent as constructed
  and the article store of the components: if the pretrainer imports and constructs,
  \<^verbatim>\<open>pretrain_with_supervised(episodes=500)\<close> is called exactly once, before the
  record that ends the stage, which is \<open>Pretraining completed\<close> with the accuracy if
  the call and the evaluation return and \<open>Pretraining skipped\<close> with the exception
  otherwise, and the agent served is the one the call left; if the import or the
  constructor raises, the stage is skipped: there is no call and the only record is
  \<open>Pretraining skipped\<close> with that exception.
\<close>

theorem pretraining_before_serving:
  "length (filter is_pretrain_call (main b)) \<le> 1 \<and>
   ((\<exists>e\<in>set (main b). is_serving e) \<longrightarrow>
      length (filter pretraining_over (takeWhile (\<lambda>e. \<not> is_serving e) (main b))) = 1 \<and>
      filter is_pretrain_call (dropWhile (\<lambda>e. \<not> is_serving e) (main b)) = [] \<and>
      filter pretraining_over (dropWhile (\<lambda>e. \<not> is_serving e) (main b)) = [] \<and>
      (\<exists>c ag0.
         components (initialize_system b) = Some c \<and>
         new_DQNAgent b (get_state_dimension (c_state_encoder c)) (get_action_space_size (c_env c))
           (c_config c) = Inr ag0 \<and>
         (\<forall>x. import_Pretrainer b = Some x \<longrightarrow>
            pretraining_marks (takeWhile (\<lambda>e. \<not> is_serving e) (main b)) =
              [Log WARNING [S ''Pretraining skipped: '', E x]]) \<and>
         (\<forall>x. import_Pretrainer b = None \<and>
              new_Pretrainer b (c_env c) ag0 (c_article_db c) = Some x \<longrightarrow>
            pretraining_marks (takeWhile (\<lambda>e. \<not> is_serving e) (main b)) =
              [Log WARNING [S ''Pretraining skipped: '', E x]]) \<and>
         (import_Pretrainer b = None \<and> new_Pretrainer b (c_env c) ag0 (c_article_db c) = None \<longrightarrow>
            pretraining_marks (takeWhile (\<lambda>e. \<not> is_serving e) (main b)) =
              [PretrainSupervised 500,
               (case pretrain_with_supervised b (c_env c) ag0 (c_article_db c) 500 of
                  (Some x, a') \<Rightarrow> Log WARNING [S ''Pretraining skipped: '', E x]
                | (None, a') \<Rightarrow>
                   (case evaluate_pretraining b (c_env c) a' (c_article_db c) of
                      Inl x \<Rightarrow> Log WARNING [S ''Pretraining skipped: '', E x]
                    | Inr acc \<Rightarrow> Log INFO [S ''Pretraining completed! Accuracy: '', R acc]))] \<and>
            length (filter is_pretrain_call (main b)) = 1 \<and>
            c_agent c = snd (pretrain_with_supervised b (c_env c) ag0 (c_article_db c) 500))))"
proof (intro conjI impI)
  show "length (filter is_pretrain_call (main b)) \<le> 1"
    using init_call_at_most_once [of b] by (simp add: main_pretrain_calls)
next
  assume "\<exists>e\<in>set (main b). is_serving e"
  from main_serving_shape [OF this]
  obtain c api rest where shape:
    "components (initialize_system b) = Some c"
    "filter is_pretrain_call rest = []" "filter pretraining_over rest = []"
    "takeWhile (\<lambda>e. \<not> is_serving e) (main b) =
       events (initialize_system b) @
       [Log INFO [S ''Starting FastAPI server...''],
        Log INFO [S ''API will be available at: http://'', S (api_host (c_config c)), S '':'',
                  N (api_port (c_config c))],
        Log INFO [S ''API documentation: http://'', S (api_host (c_config c)), S '':'',
                  N (api_port (c_config c)), S ''/docs''],
        Log INFO [S ''Chat UI: http://'', S (api_host (c_config c)), S '':'',
                  N (api_port (c_config c)), S ''/chat'']]"
    "dropWhile (\<lambda>e. \<not> is_serving e) (main b) =
       UvicornRun api (api_host (c_config c)) (api_port (c_config c)) # rest"
    by blast
  from shape(1) have once: "length (filter pretraining_over (events (initialize_system b))) = Suc 0"
    by (rule init_over_once)
  from shape(4) once
  show "length (filter pretraining_over (takeWhile (\<lambda>e. \<not> is_serving e) (main b))) = 1"
    by simp
  from shape(2,5)
  show "filter is_pretrain_call (dropWhile (\<lambda>e. \<not> is_serving e) (main b)) = []"
    by simp
  from shape(3,5)
  show "filter pretraining_over (dropWhile (\<lambda>e. \<not> is_serving e) (main b)) = []"
    by simp
  from system_marks [OF shape(1)]
  obtain ag0 where stage:
    "new_DQNAgent b (get_state_dimension (c_state_encoder c)) (get_action_space_size (c_env c))
       (c_config c) = Inr ag0"
    "pretraining_marks (events (initialize_system b)) =
       pretraining_marks (snd (pretraining b (c_env c) ag0 (c_article_db c)))"
    "c_agent c = fst (pretraining b (c_env c) ag0 (c_article_db c))"
    by blast
  from shape(4) stage(2)
  have before: "pretraining_marks (takeWhile (\<lambda>e. \<not> is_serving e) (main b)) =
      pretraining_marks (snd (pretraining b (c_env c) ag0 (c_article_db c)))"
    by (simp add: marks_append marks_Cons marks_Nil)
  have "filter is_pretrain_call (main b) = filter is_pretrain_call (events (initialize_system b))"
    by (rule main_pretrain_calls)
  also have "\<dots> = filter is_pretrain_call (pretraining_marks (events (initialize_system b)))"
    by (rule calls_of_marks [symmetric])
  also have "\<dots> =
      filter is_pretrain_call (pretraining_marks (snd (pretraining b (c_env c) ag0 (c_article_db c))))"
    by (simp only: stage(2))
  finally have calls: "filter is_pretrain_call (main b) =
      filter is_pretrain_call (pretraining_marks (snd (pretraining b (c_env c) ag0 (c_article_db c))))" .
  have import_fails: "pretraining_marks (takeWhile (\<lambda>e. \<not> is_serving e) (main b)) =
        [Log WARNING [S ''Pretraining skipped: '', E x]]"
    if "import_Pretrainer b = Some x" for x
    using that before pretraining_marks_import_fails [of b x "c_env c" ag0 "c_article_db c"] by simp
  have constructor_fails: "pretraining_marks (takeWhile (\<lambda>e. \<not> is_serving e) (main b)) =
        [Log WARNING [S ''Pretraining skipped: '', E x]]"
    if "import_Pretrainer b = None \<and> new_Pretrainer b (c_env c) ag0 (c_article_db c) = Some x" for x
    using that before pretraining_marks_constructor_fails [of b "c_env c" ag0 "c_article_db c" x]
    by simp
  have called: "pretraining_marks (takeWhile (\<lambda>e. \<not> is_serving e) (main b)) =
        [PretrainSupervised 500,
         (case pretrain_with_supervised b (c_env c) ag0 (c_article_db c) 500 of
            (Some x, a') \<Rightarrow> Log WARNING [S ''Pretraining skipped: '', E x]
          | (None, a') \<Rightarrow>
             (case evaluate_pretraining b (c_env c) a' (c_article_db c) of
                Inl x \<Rightarrow> Log WARNING [S ''Pretraining skipped: '', E x]
              | Inr acc \<Rightarrow> Log INFO [S ''Pretraining completed! Accuracy: '', R acc]))] \<and>
      length (filter is_pretrain_call (main b)) = 1 \<and>
      c_agent c = snd (pretrain_with_supervised b (c_env c) ag0 (c_article_db c) 500)"
    if h: "import_Pretrainer b = None \<and> new_Pretrainer b (c_env c) ag0 (c_article_db c) = None"
  proof -
    from h pretraining_marks_called [of b "c_env c" ag0 "c_article_db c"]
    have m: "pretraining_marks (snd (pretraining b (c_env c) ag0 (c_article_db c))) =
        [PretrainSupervised 500,
         (case pretrain_with_supervised b (c_env c) ag0 (c_article_db c) 500 of
            (Some x, a') \<Rightarrow> Log WARNING [S ''Pretraining skipped: '', E x]
          | (None, a') \<Rightarrow>
             (case evaluate_pretraining b (c_env c) a' (c_article_db c) of
                Inl x \<Rightarrow> Log WARNING [S ''Pretraining skipped: '', E x]
              | Inr acc \<Rightarrow> Log INFO [S ''Pretraining completed! Accuracy: '', R acc]))]"
      and a: "fst (pretraining b (c_env c) ag0 (c_article_db c)) =
        snd (pretrain_with_supervised b (c_env c) ag0 (c_article_db c) 500)"
      by simp_all
    from calls m have "length (filter is_pretrain_call (main b)) = 1"
      by (simp add: end_record_no_call)
    with before m a stage(3) show ?thesis by simp
  qed
  from shape(1) stage(1) import_fails constructor_fails called
  show "\<exists>c ag0.
         components (initialize_system b) = Some c \<and>
         new_DQNAgent b (get_state_dimension (c_state_encoder c)) (get_action_space_size (c_env c))
           (c_config c) = Inr ag0 \<and>
         (\<forall>x. import_Pretrainer b = Some x \<longrightarrow>
            pretraining_marks (takeWhile (\<lambda>e. \<not> is_serving e) (main b)) =
              [Log WARNING [S ''Pretraining skipped: '', E x]]) \<and>
         (\<forall>x. import_Pretrainer b = None \<and>
              new_Pretrainer b (c_env c) ag0 (c_article_db c) = Some x \<longrightarrow>
            pretraining_marks (takeWhile (\<lambda>e. \<not> is_serving e) (main b)) =
              [Log WARNING [S ''Pretraining skipped: '', E x]]) \<and>
         (import_Pretrainer b = None \<and> new_Pretrainer b (c_env c) ag0 (c_article_db c) = None \<longrightarrow>
            pretraining_marks (takeWhile (\<lambda>e. \<not> is_serving e) (main b)) =
              [PretrainSupervised 500,
               (case pretrain_with_supervised b (c_env c) ag0 (c_article_db c) 500 of
                  (Some x, a') \<Rightarrow> Log WARNING [S ''Pretraining skipped: '', E x]
                | (None, a') \<Rightarrow>
                   (case evaluate_pretraining b (c_env c) a' (c_article_db c) of
                      Inl x \<Rightarrow> Log WARNING [S ''Pretraining skipped: '', E x]
                    | Inr acc \<Rightarrow> Log INFO [S ''Pretraining completed! Accuracy: '', R acc]))] \<and>
            length (filter is_pretrain_call (main b)) = 1 \<and>
            c_agent c = snd (pretrain_with_supervised b (c_env c) ag0 (c_article_db c) 500))"
    by (intro exI [of _ c] exI [of _ ag0]) blast
qed

theorem pretraining_before_serving_witness:
  "length (filter is_serving (main demo_startup)) = 1 \<and>
   length (filter is_pretrain_call (main demo_startup)) = 1 \<and>
   pretraining_marks (takeWhile (\<lambda>e. \<not> is_serving e) (main demo_startup)) =
     [PretrainSupervised 500, Log INFO [S ''Pretraining completed! Accuracy: '', R 1]] \<and>
   length (filter pretraining_over (takeWhile (\<lambda>e. \<not> is_serving e) (main demo_startup))) = 1 \<and>
   filter is_pretrain_call (dropWhile (\<lambda>e. \<not> is_serving e) (main demo_startup)) = [] \<and>
   filter pretraining_over (dropWhile (\<lambda>e. \<not> is_serving e) (main demo_startup)) = [] \<and>
   length (filter is_serving (main no_pretrainer_startup)) = 1 \<and>
   pretraining_marks (takeWhile (\<lambda>e. \<not> is_serving e) (main no_pretrainer_startup)) =
     [Log WARNING [S ''Pretraining skipped: '', E (Exception ''No module named training'')]]"
proof -
  have up: "app_setup demo_startup = None" "app_setup no_pretrainer_startup = None"
    by (simp_all add: demo_startup_def no_pretrainer_startup_def)
  from up(1) demo_startup_initialised have serves: "\<exists>e\<in>set (main demo_startup). is_serving e"
    by (simp add: main_serves_iff)
  from up(2) no_pretrainer_startup_initialised
  have serves': "\<exists>e\<in>set (main no_pretrainer_startup). is_serving e"
    by (simp add: main_serves_iff)
  obtain c0 where "components (initialize_system demo_startup) = Some c0"
    using demo_startup_initialised by blast
  then have one: "length (filter is_serving (main demo_startup)) = 1"
    by (simp add: main_def Let_def new_RecommendationAPI_def init_no_serving demo_startup_def)
  obtain c1 where "components (initialize_system no_pretrainer_startup) = Some c1"
    using no_pretrainer_startup_initialised by blast
  then have one': "length (filter is_serving (main no_pretrainer_startup)) = 1"
    by (simp add: main_def Let_def new_RecommendationAPI_def init_no_serving
        no_pretrainer_startup_def demo_startup_def)
  have steps: "import_Pretrainer demo_startup = None"
    "new_Pretrainer demo_startup e a db = None"
    "pretrain_with_supervised demo_startup e a db 500 = (None, demo_agent)"
    "evaluate_pretraining demo_startup e a' db = Inr 1" for e a a' db
    by (simp_all add: demo_startup_def)
  have missing: "import_Pretrainer no_pretrainer_startup = Some (Exception ''No module named training'')"
    by (simp add: no_pretrainer_startup_def)
  note served = pretraining_before_serving [of demo_startup, THEN conjunct2, THEN mp, OF serves]
  from served have run:
    "length (filter pretraining_over (takeWhile (\<lambda>e. \<not> is_serving e) (main demo_startup))) = 1"
    "filter is_pretrain_call (dropWhile (\<lambda>e. \<not> is_serving e) (main demo_startup)) = []"
    "filter pretraining_over (dropWhile (\<lambda>e. \<not> is_serving e) (main demo_startup)) = []"
    by simp_all
  from served have called:
    "pretraining_marks (takeWhile (\<lambda>e. \<not> is_serving e) (main demo_startup)) =
       [PretrainSupervised 500, Log INFO [S ''Pretraining completed! Accuracy: '', R 1]] \<and>
     length (filter is_pretrain_call (main demo_startup)) = 1"
    by (clarsimp simp: steps)
  note served' =
    pretraining_before_serving [of no_pretrainer_startup, THEN conjunct2, THEN mp, OF serves']
  from served' have skipped:
    "pretraining_marks (takeWhile (\<lambda>e. \<not> is_serving e) (main no_pretrainer_startup)) =
       [Log WARNING [S ''Pretraining skipped: '', E (Exception ''No module named training'')]]"
    by (clarsimp simp: missing)
  from one run called one' skipped show ?thesis by blast
qed

lemma pretraining_failed:
  "pretraining_try b e a db = (Inl x, a', evs) \<Longrightarrow>
   pretraining b e a db = (a', evs @ [Log WARNING [S ''Pretraining skipped: '', E x]])"
  by (simp add: pretraining_def)

lemma no_serving_no_api: "filter is_serving evs = [] \<Longrightarrow> concat (map served_api evs) = []"
proof (induction evs)
  case Nil
  then show ?case by simp
next
  case (Cons e evs)
  then show ?case by (cases e) (auto split: if_splits)
qed

lemma main_served_agent:
  assumes "components (initialize_system b) = Some c" and "app_setup b = None"
  shows "map agent (concat (map served_api (main b))) = [c_agent c]"
proof -
  have "concat (map served_api (events (initialize_system b))) = []"
    by (rule no_serving_no_api) (rule init_no_serving)
  with assms show ?thesis
    by (simp add: main_def Let_def new_RecommendationAPI_def split: option.splits)
qed

lemma main_not_serving_iff:
  "filter is_serving (main b) = [] \<longleftrightarrow> \<not> (components (initialize_system b) \<noteq> None \<and> app_setup b = None)"
  using main_serves_iff [of b] by (auto simp: filter_empty_conv)

lemma initialize_try_pretraining_failed:
  assumes "new_Config b = Inr cfg"
    and "new_ArticleDatabase b cfg = Inr db"
    and "get_all_articles db \<noteq> []"
    and "new_SessionManager b cfg = Inr sm"
    and "import_components b = None"
    and "new_StateEncoder b db = Inr enc"
    and "new_RecommendationEnv b db enc cfg = Inr en"
    and "new_DQNAgent b (get_state_dimension enc) (get_action_space_size en)
           (cfg\<lparr>model_action_dim := get_action_space_size en,
                model_state_dim := get_state_dimension enc\<rparr>) = Inr ag0"
    and "pretraining_try b en ag0 db = (Inl x, ag1, evs)"
    and "new_ResponseGenerator b db = Inr gen"
  shows "map_option c_agent (components (initialize_system b)) = Some ag1"
    and "Log WARNING [S ''Pretraining skipped: '', E x] \<in> set (events (initialize_system b))"
proof -
  from assms(9) have p: "pretraining b en ag0 db =
      (ag1, evs @ [Log WARNING [S ''Pretraining skipped: '', E x]])"
    by (rule pretraining_failed)
  from assms(10) p have t: "initialize_trained b
      (cfg\<lparr>model_action_dim := get_action_space_size en, model_state_dim := get_state_dimension enc\<rparr>)
      db udb sm enc en ag0 =
      (Inr (Some \<lparr>c_config = cfg\<lparr>model_action_dim := get_action_space_size en,
                                   model_state_dim := get_state_dimension enc\<rparr>,
                  c_article_db = db, c_user_db = udb, c_session_manager = sm,
                  c_state_encoder = enc, c_env = en, c_agent = ag1,
                  c_response_generator = gen\<rparr>),
       evs @ [Log WARNING [S ''Pretraining skipped: '', E x],
              Log INFO [S ''Response generator initialized'']])" for udb
    by (simp add: initialize_trained_def Let_def)
  from assms(4-8) have c: "map_option c_agent (case fst (initialize_components b cfg db udb) of
        Inl x \<Rightarrow> None | Inr r \<Rightarrow> r) = Some ag1 \<and>
      Log WARNING [S ''Pretraining skipped: '', E x] \<in> set (snd (initialize_components b cfg db udb))"
    for udb
    by (simp add: initialize_components_def Let_def t)
  from assms(1-3) c have "map_option c_agent (case fst (initialize_try b) of
        Inl x \<Rightarrow> None | Inr r \<Rightarrow> r) = Some ag1 \<and>
      Log WARNING [S ''Pretraining skipped: '', E x] \<in> set (fst (snd (initialize_try b)))"
    by (simp add: initialize_try_def Let_def)
  then show "map_option c_agent (components (initialize_system b)) = Some ag1"
    and "Log WARNING [S ''Pretraining skipped: '', E x] \<in> set (events (initialize_system b))"
    by (simp_all add: components_initialize_system events_initialize_system)
qed

text \<open>
  C3. No failure of the pretraining stage aborts startup. Whatever the four steps of
  the stage (the import, the constructor, \<^verbatim>\<open>pretrain_with_supervised\<close>,
  \<^verbatim>\<open>evaluate_pretraining\<close>) are replaced with, \<^verbatim>\<open>initialize_system\<close> returns the same
  result up to the agent, \<^verbatim>\<open>None\<close> or the same components, and \<^verbatim>\<open>main\<close> starts the
  server in the one run exactly if it does in the other. And when every other step
  of initialization succeeds and the stage ends with an exception, the components
  are returned with the agent as the stage left it, the warning
  \<open>Pretraining skipped\<close> with the exception is logged, and, if the application can be
  set up, the server is started with that agent.
\<close>

theorem pretraining_failure_not_fatal:
  "map_option (\<lambda>c. c\<lparr>c_agent := a\<rparr>)
     (components (initialize_system
        (b\<lparr>import_Pretrainer := ip, new_Pretrainer := np, pretrain_with_supervised := ps,
           evaluate_pretraining := ev\<rparr>))) =
   map_option (\<lambda>c. c\<lparr>c_agent := a\<rparr>) (components (initialize_system b)) \<and>
   ((filter is_serving (main
        (b\<lparr>import_Pretrainer := ip, new_Pretrainer := np, pretrain_with_supervised := ps,
           evaluate_pretraining := ev\<rparr>)) = []) =
    (filter is_serving (main b) = [])) \<and>
   (new_Config b = Inr cfg \<and>
    new_ArticleDatabase b cfg = Inr db \<and>
    get_all_articles db \<noteq> [] \<and>
    new_SessionManager b cfg = Inr sm \<and>
    import_components b = None \<and>
    new_StateEncoder b db = Inr enc \<and>
    new_RecommendationEnv b db enc cfg = Inr en \<and>
    new_DQNAgent b (get_state_dimension enc) (get_action_space_size en)
      (cfg\<lparr>model_action_dim := get_action_space_size en,
           model_state_dim := get_state_dimension enc\<rparr>) = Inr ag0 \<and>
    pretraining_try b en ag0 db = (Inl x, ag1, evs) \<and>
    new_ResponseGenerator b db = Inr gen \<longrightarrow>
      map_option c_agent (components (initialize_system b)) = Some ag1 \<and>
      Log WARNING [S ''Pretraining skipped: '', E x] \<in> set (events (initialize_system b)) \<and>
      (app_setup b = None \<longrightarrow> map agent (concat (map served_api (main b))) = [ag1]))"
proof (intro conjI impI)
  let ?b = "b\<lparr>import_Pretrainer := ip, new_Pretrainer := np, pretrain_with_supervised := ps,
           evaluate_pretraining := ev\<rparr>"
  show same: "map_option (\<lambda>c. c\<lparr>c_agent := a\<rparr>) (components (initialize_system ?b)) =
        map_option (\<lambda>c. c\<lparr>c_agent := a\<rparr>) (components (initialize_system b))"
    by (rule system_agent_only)
  then have "(components (initialize_system ?b) = None) = (components (initialize_system b) = None)"
    by (metis map_option_is_None)
  then show "(filter is_serving (main ?b) = []) = (filter is_serving (main b) = [])"
    by (simp add: main_not_serving_iff)
next
  assume h: "new_Config b = Inr cfg \<and>
    new_ArticleDatabase b cfg = Inr db \<and>
    get_all_articles db \<noteq> [] \<and>
    new_SessionManager b cfg = Inr sm \<and>
    import_components b = None \<and>
    new_StateEncoder b db = Inr enc \<and>
    new_RecommendationEnv b db enc cfg = Inr en \<and>
    new_DQNAgent b (get_state_dimension enc) (get_action_space_size en)
      (cfg\<lparr>model_action_dim := get_action_space_size en,
           model_state_dim := get_state_dimension enc\<rparr>) = Inr ag0 \<and>
    pretraining_try b en ag0 db = (Inl x, ag1, evs) \<and>
    new_ResponseGenerator b db = Inr gen"
  then show agent1: "map_option c_agent (components (initialize_system b)) = Some ag1"
    by (intro initialize_try_pretraining_failed(1) [of b cfg db sm enc en ag0 x ag1 evs gen]) simp_all
  from h show "Log WARNING [S ''Pretraining skipped: '', E x] \<in> set (events (initialize_system b))"
    by (intro initialize_try_pretraining_failed(2) [of b cfg db sm enc en ag0 x ag1 evs gen]) simp_all
  assume up: "app_setup b = None"
  from agent1 obtain c where "components (initialize_system b) = Some c" "c_agent c = ag1"
    by auto
  with up main_served_agent [of b c]
  show "map agent (concat (map served_api (main b))) = [ag1]"
    by simp
qed

theorem pretraining_failure_not_fatal_witness:
  "new_Config no_pairs_startup = Inr demo_config \<and>
   new_ArticleDatabase no_pairs_startup demo_config = Inr demo_articles \<and>
   get_all_articles demo_articles =
     [\<lparr>article_id = 1, content = ''network''\<rparr>, \<lparr>article_id = 2, content = ''storage''\<rparr>] \<and>
   pretraining_try no_pairs_startup demo_env index_agent demo_articles =
     (Inl (Exception ''No labeled pairs''), index_agent,
      [Log INFO [S ''Starting pretraining...''], PretrainSupervised 500]) \<and>
   map_option c_agent (components (initialize_system no_pairs_startup)) = Some index_agent \<and>
   Log WARNING [S ''Pretraining skipped: '', E (Exception ''No labeled pairs'')]
     \<in> set (events (initialize_system no_pairs_startup)) \<and>
   map agent (concat (map served_api (main no_pairs_startup))) = [index_agent]"
proof -
  have given:
    "new_Config no_pairs_startup = Inr demo_config"
    "new_ArticleDatabase no_pairs_startup demo_config = Inr demo_articles"
    "get_all_articles demo_articles =
       [\<lparr>article_id = 1, content = ''network''\<rparr>, \<lparr>article_id = 2, content = ''storage''\<rparr>]"
    "new_SessionManager no_pairs_startup demo_config = Inr \<lparr>sessions = fmempty\<rparr>"
    "import_components no_pairs_startup = None"
    "new_StateEncoder no_pairs_startup demo_articles = Inr \<lparr>get_state_dimension = 2\<rparr>"
    "new_RecommendationEnv no_pairs_startup demo_articles \<lparr>get_state_dimension = 2\<rparr> demo_config =
       Inr demo_env"
    "new_DQNAgent no_pairs_startup (get_state_dimension \<lparr>get_state_dimension = 2\<rparr>)
       (get_action_space_size demo_env)
       (demo_config\<lparr>model_action_dim := get_action_space_size demo_env,
                    model_state_dim := get_state_dimension \<lparr>get_state_dimension = 2\<rparr>\<rparr>) =
       Inr index_agent"
    "new_ResponseGenerator no_pairs_startup demo_articles = Inr demo_generator"
    "app_setup no_pairs_startup = None"
    by (simp_all add: startup_defs get_all_articles_def demo_articles_def)
  from given(3) have nonempty: "get_all_articles demo_articles \<noteq> []"
    by simp
  from given nonempty no_pairs_try
    pretraining_failure_not_fatal [where b = no_pairs_startup and cfg = demo_config
      and db = demo_articles and sm = "\<lparr>sessions = fmempty\<rparr>"
      and enc = "\<lparr>get_state_dimension = 2\<rparr>" and en = demo_env and ?ag0.0 = index_agent
      and x = "Exception ''No labeled pairs''" and ?ag1.0 = index_agent
      and evs = "[Log INFO [S ''Starting pretraining...''], PretrainSupervised 500]"
      and gen = demo_generator]
  have "map_option c_agent (components (initialize_system no_pairs_startup)) = Some index_agent \<and>
     Log WARNING [S ''Pretraining skipped: '', E (Exception ''No labeled pairs'')]
       \<in> set (events (initialize_system no_pairs_startup)) \<and>
     map agent (concat (map served_api (main no_pairs_startup))) = [index_agent]"
    by blast
  with given(1-3) no_pairs_try show ?thesis by blast
qed

end
